theory Spec2Isabelle
  imports Main
begin

section \<open>Values exchanged with the guard's collaborators\<close>

text \<open>
  A user id has the TypeScript type \<^verbatim>\<open>string | number | BigInt\<close>. Numbers are
  modelled by integers. The guard tests a stored id with \<^verbatim>\<open>if (loggedInUserId)\<close>,
  so JavaScript truthiness is part of the model: the empty string, \<^verbatim>\<open>0\<close> and
  \<^verbatim>\<open>0n\<close> are falsy.
\<close>

datatype user_id = IdString string | IdNumber int | IdBigInt int

fun truthy_id :: "user_id \<Rightarrow> bool" where
  "truthy_id (IdString s) = (s \<noteq> [])"
| "truthy_id (IdNumber n) = (n \<noteq> 0)"
| "truthy_id (IdBigInt n) = (n \<noteq> 0)"

text \<open>
  The exceptions the guard raises itself, each with its message, and
  \<open>CollaboratorFailure\<close> for whatever a provider call throws. The two auth errors
  also carry \<^verbatim>\<open>guardDriverName\<close>. \<open>TypeError\<close> is what JavaScript raises when a
  non-null assertion (\<^verbatim>\<open>!\<close>) is wrong at run time.
\<close>

datatype error =
    E_UNAUTHORIZED_ACCESS string string
  | E_INVALID_CREDENTIALS string string
  | RuntimeException string
  | Exception string
  | TypeError string
  | CollaboratorFailure string

text \<open>
  A value that may be absent (\<^verbatim>\<open>undefined\<close>, \<^verbatim>\<open>null\<close>) under a JavaScript
  truthiness test: \<open>when_truthy t v\<close> is the value when the test passes.
\<close>

fun when_truthy :: "('a \<Rightarrow> bool) \<Rightarrow> 'a option \<Rightarrow> 'a option" where
  "when_truthy t None = None"
| "when_truthy t (Some v) = (if t v then Some v else None)"

definition truthy_string :: "string \<Rightarrow> bool" where
  "truthy_string s = (s \<noteq> [])"

text \<open>\<^verbatim>\<open>error instanceof E_UNAUTHORIZED_ACCESS\<close>\<close>

fun instanceof_E_UNAUTHORIZED_ACCESS :: "error \<Rightarrow> bool" where
  "instanceof_E_UNAUTHORIZED_ACCESS (E_UNAUTHORIZED_ACCESS _ _) = True"
| "instanceof_E_UNAUTHORIZED_ACCESS _ = False"

text \<open>The adapter a provider returns for a user: \<^verbatim>\<open>getId()\<close> and \<^verbatim>\<open>getOriginal()\<close>.\<close>

record 'u guard_user =
  getId :: user_id
  getOriginal :: 'u

text \<open>\<^verbatim>\<open>rememberMeTokenAge?: string | number\<close>, used as \<^verbatim>\<open>age || '2years'\<close>.\<close>

datatype token_age = AgeString string | AgeNumber int

fun truthy_age :: "token_age \<Rightarrow> bool" where
  "truthy_age (AgeString s) = (s \<noteq> [])"
| "truthy_age (AgeNumber n) = (n \<noteq> 0)"

record session_guard_config =
  rememberMeTokenAge :: "token_age option"

section \<open>The remember-me token\<close>

text \<open>
  The token entity. \<open>tokenValue\<close> is the field \<^verbatim>\<open>value\<close>: the one-time readable
  cookie value, present only on a token that was just created or refreshed. Dates are
  milliseconds since the epoch.
\<close>

record remember_me_token =
  series :: string
  tokenValue :: "string option"
  hash :: string
  userId :: user_id
  guard :: string
  createdAt :: int
  updatedAt :: int
  expiresAt :: int

text \<open>
  The primitives of the token module that the guard imports and that are taken as
  parameters: the digest of a secret, the duration of a token age in milliseconds, and
  the cookie codec for a series and a secret.
\<close>

record token_kit =
  digest :: "string \<Rightarrow> string"
  ageMillis :: "token_age \<Rightarrow> int"
  encodeCookieValue :: "string \<Rightarrow> string \<Rightarrow> string"
  decodeCookieValue :: "string \<Rightarrow> (string \<times> string) option"

section \<open>The user provider\<close>

text \<open>
  The provider contract. Every method runs on the provider's own state \<open>'p\<close> and either
  returns or throws. The four remember-me methods are optional: \<open>None\<close> is a provider
  that does not implement the method. The provider's \<^verbatim>\<open>verifyCredentials\<close> and
  \<^verbatim>\<open>recycleRememberMeToken\<close> carry a suffix, the guard has methods of the same names.
\<close>

record ('u, 'p) user_provider =
  findById :: "user_id \<Rightarrow> 'p \<Rightarrow> (error + 'u guard_user option) \<times> 'p"
  verifyCredentials_provider :: "string \<Rightarrow> string \<Rightarrow> 'p \<Rightarrow> (error + 'u guard_user option) \<times> 'p"
  createUserForGuard :: "'u \<Rightarrow> 'p \<Rightarrow> (error + 'u guard_user) \<times> 'p"
  findRememberMeTokenBySeries :: "(string \<Rightarrow> 'p \<Rightarrow> (error + remember_me_token option) \<times> 'p) option"
  createRememberMeToken :: "(remember_me_token \<Rightarrow> 'p \<Rightarrow> (error + unit) \<times> 'p) option"
  recycleRememberMeToken_provider :: "(remember_me_token \<Rightarrow> 'p \<Rightarrow> (error + unit) \<times> 'p) option"
  deleteRememberMeTokenBySeries :: "(string \<Rightarrow> 'p \<Rightarrow> (error + unit) \<times> 'p) option"

section \<open>Events and effects\<close>

text \<open>
  The events of \<^verbatim>\<open>SessionGuardEvents\<close> with their payloads (the \<^verbatim>\<open>ctx\<close> reference
  apart): guard name first, then the payload fields in the order the guard writes them.
\<close>

datatype 'u guard_event =
    Authentication_attempted string string
  | Authentication_succeeded string string "'u option" "remember_me_token option"
  | Authentication_failed string error string
  | Login_attempted 'u string
  | Login_succeeded string 'u string
  | Login_failed string error
  | Credentials_verified string string 'u
  | Logged_out string "'u option" string

text \<open>
  Everything the guard does to its collaborators, in the order it does it: events
  emitted, session writes, response cookies, provider calls. An encrypted cookie is
  logged with its key, its value and its \<^verbatim>\<open>maxAge\<close> (\<^verbatim>\<open>httpOnly\<close> is always true).
\<close>

datatype 'u effect =
    Emit "'u guard_event"
  | Session_put string user_id
  | Session_forget string
  | Session_regenerate
  | Response_encryptedCookie string string token_age
  | Response_clearCookie string
  | Provider_findById user_id
  | Provider_verifyCredentials string string
  | Provider_createUserForGuard 'u
  | Provider_findRememberMeTokenBySeries string
  | Provider_createRememberMeToken remember_me_token
  | Provider_recycleRememberMeToken remember_me_token
  | Provider_deleteRememberMeTokenBySeries string

fun is_provider_call :: "'u effect \<Rightarrow> bool" where
  "is_provider_call (Provider_findById _) = True"
| "is_provider_call (Provider_verifyCredentials _ _) = True"
| "is_provider_call (Provider_createUserForGuard _) = True"
| "is_provider_call (Provider_findRememberMeTokenBySeries _) = True"
| "is_provider_call (Provider_createRememberMeToken _) = True"
| "is_provider_call (Provider_recycleRememberMeToken _) = True"
| "is_provider_call (Provider_deleteRememberMeTokenBySeries _) = True"
| "is_provider_call _ = False"

fun is_session_write :: "'u effect \<Rightarrow> bool" where
  "is_session_write (Session_put _ _) = True"
| "is_session_write (Session_forget _) = True"
| "is_session_write Session_regenerate = True"
| "is_session_write _ = False"

section \<open>The HTTP context and the world around one request\<close>

record session_store =
  entries :: "string \<Rightarrow> user_id option"
  sessionId :: string

text \<open>
  \<open>hasSession\<close> is \<^verbatim>\<open>'session' in ctx\<close>; \<open>session\<close> is \<^verbatim>\<open>ctx.session\<close>;
  \<open>requestCookies\<close> is \<^verbatim>\<open>ctx.request.encryptedCookie\<close>. \<open>clock\<close> is what
  \<^verbatim>\<open>new Date()\<close> reads, \<open>entropy\<close> the random strings still to be drawn, \<open>drawn\<close>
  how many were. \<open>trace\<close> collects the effects, oldest first. \<open>localTZA\<close> is the
  host's time zone: the offset of local time from UTC in milliseconds, asked either for
  a UTC time value (\<open>True\<close>) or for a local time value (\<open>False\<close>).
\<close>

record ('u, 'p) world =
  hasSession :: bool
  session :: session_store
  requestCookies :: "string \<Rightarrow> string option"
  providerState :: 'p
  trace :: "'u effect list"
  clock :: int
  localTZA :: "int \<Rightarrow> bool \<Rightarrow> int"
  entropy :: "nat \<Rightarrow> string"
  drawn :: nat

definition perform :: "'u effect \<Rightarrow> ('u, 'p) world \<Rightarrow> ('u, 'p) world" where
  "perform e w = w\<lparr>trace := trace w @ [e]\<rparr>"

definition emit :: "'u guard_event \<Rightarrow> ('u, 'p) world \<Rightarrow> ('u, 'p) world" where
  "emit ev w = perform (Emit ev) w"

definition random_string :: "('u, 'p) world \<Rightarrow> string \<times> ('u, 'p) world" where
  "random_string w = (entropy w (drawn w), w\<lparr>drawn := Suc (drawn w)\<rparr>)"

subsection \<open>JavaScript dates\<close>

text \<open>
  A \<^verbatim>\<open>Date\<close> is its time value, the milliseconds since the epoch in UTC (taken
  finite and within the range of \<^verbatim>\<open>TimeClip\<close>). \<^verbatim>\<open>getSeconds\<close> and
  \<^verbatim>\<open>setSeconds\<close> work on local time, as ECMAScript defines them: the time value is
  moved to local time, taken apart into day, hour, minute, second and millisecond, put
  together again with the new seconds, and moved back to UTC with the offset that the
  host gives for the resulting local time.
\<close>

definition msPerSecond :: int where "msPerSecond = 1000"
definition msPerMinute :: int where "msPerMinute = 60000"
definition msPerHour :: int where "msPerHour = 3600000"
definition msPerDay :: int where "msPerDay = 86400000"

definition Day :: "int \<Rightarrow> int" where
  "Day t = t div msPerDay"

definition HourFromTime :: "int \<Rightarrow> int" where
  "HourFromTime t = (t div msPerHour) mod 24"

definition MinFromTime :: "int \<Rightarrow> int" where
  "MinFromTime t = (t div msPerMinute) mod 60"

definition SecFromTime :: "int \<Rightarrow> int" where
  "SecFromTime t = (t div msPerSecond) mod 60"

definition msFromTime :: "int \<Rightarrow> int" where
  "msFromTime t = t mod msPerSecond"

definition MakeTime :: "int \<Rightarrow> int \<Rightarrow> int \<Rightarrow> int \<Rightarrow> int" where
  "MakeTime h m sec ms = h * msPerHour + m * msPerMinute + sec * msPerSecond + ms"

definition MakeDate :: "int \<Rightarrow> int \<Rightarrow> int" where
  "MakeDate day time = day * msPerDay + time"

definition LocalTime :: "('u, 'p) world \<Rightarrow> int \<Rightarrow> int" where
  "LocalTime w t = t + localTZA w t True"

definition UTC :: "('u, 'p) world \<Rightarrow> int \<Rightarrow> int" where
  "UTC w t = t - localTZA w t False"

definition getSeconds :: "('u, 'p) world \<Rightarrow> int \<Rightarrow> int" where
  "getSeconds w t = SecFromTime (LocalTime w t)"

definition setSeconds :: "('u, 'p) world \<Rightarrow> int \<Rightarrow> int \<Rightarrow> int" where
  "setSeconds w sec t =
     (let tl = LocalTime w t;
          date = MakeDate (Day tl) (MakeTime (HourFromTime tl) (MinFromTime tl) sec (msFromTime tl))
      in UTC w date)"

subsection \<open>Session store\<close>

text \<open>
  Modelled from the spec: the session store's \<^verbatim>\<open>get\<close>, \<^verbatim>\<open>put\<close>, \<^verbatim>\<open>forget\<close> and
  \<^verbatim>\<open>regenerate\<close> (the session package is not part of the repository). Regenerating
  replaces the session id by a fresh one and keeps the entries.
\<close>

definition session_get :: "string \<Rightarrow> ('u, 'p) world \<Rightarrow> user_id option" where
  "session_get k w = entries (session w) k"

definition session_put :: "string \<Rightarrow> user_id \<Rightarrow> ('u, 'p) world \<Rightarrow> ('u, 'p) world" where
  "session_put k v w =
     perform (Session_put k v) (w\<lparr>session := (session w)\<lparr>entries := (entries (session w))(k \<mapsto> v)\<rparr>\<rparr>)"

definition session_forget :: "string \<Rightarrow> ('u, 'p) world \<Rightarrow> ('u, 'p) world" where
  "session_forget k w =
     perform (Session_forget k) (w\<lparr>session := (session w)\<lparr>entries := (entries (session w))(k := None)\<rparr>\<rparr>)"

definition session_regenerate :: "('u, 'p) world \<Rightarrow> ('u, 'p) world" where
  "session_regenerate w =
     (case random_string w of
        (fresh, w1) \<Rightarrow> perform Session_regenerate (w1\<lparr>session := (session w1)\<lparr>sessionId := fresh\<rparr>\<rparr>))"

subsection \<open>Token operations\<close>

text \<open>
  Modelled from the spec: \<^verbatim>\<open>RememberMeToken.create\<close> (the file
  \<^verbatim>\<open>remember_me_token.ts\<close> is not part of the sources). It generates a fresh random
  series and secret, computes the hash and sets \<^verbatim>\<open>expiresAt = now + ttl\<close>.
\<close>

definition RememberMeToken_create ::
  "token_kit \<Rightarrow> user_id \<Rightarrow> token_age \<Rightarrow> string \<Rightarrow> ('u, 'p) world \<Rightarrow> remember_me_token \<times> ('u, 'p) world" where
  "RememberMeToken_create K uid age guardName w =
     (case random_string w of (newSeries, w1) \<Rightarrow>
      case random_string w1 of (secret, w2) \<Rightarrow>
        (\<lparr>series = newSeries,
          tokenValue = Some (encodeCookieValue K newSeries secret),
          hash = digest K secret,
          userId = uid,
          guard = guardName,
          createdAt = clock w2,
          updatedAt = clock w2,
          expiresAt = clock w2 + ageMillis K age\<rparr>, w2))"

text \<open>
  Modelled from the spec: \<^verbatim>\<open>RememberMeToken.decode\<close>, pure parsing of a cookie value
  into a series and a secret, or a decode failure.
\<close>

definition RememberMeToken_decode :: "token_kit \<Rightarrow> string \<Rightarrow> (string \<times> string) option" where
  "RememberMeToken_decode K cookie = decodeCookieValue K cookie"

text \<open>
  Modelled from the spec: \<^verbatim>\<open>token.verify\<close> hashes the candidate secret and compares
  it with the stored hash.
\<close>

definition RememberMeToken_verify :: "token_kit \<Rightarrow> remember_me_token \<Rightarrow> string \<Rightarrow> bool" where
  "RememberMeToken_verify K token candidate = (digest K candidate = hash token)"

text \<open>
  Modelled from the spec: \<^verbatim>\<open>token.refresh\<close> regenerates the value and the hash from
  a fresh random secret and bumps \<^verbatim>\<open>updatedAt\<close> and \<^verbatim>\<open>expiresAt\<close>.
\<close>

definition RememberMeToken_refresh ::
  "token_kit \<Rightarrow> token_age \<Rightarrow> remember_me_token \<Rightarrow> ('u, 'p) world \<Rightarrow> remember_me_token \<times> ('u, 'p) world" where
  "RememberMeToken_refresh K age token w =
     (case random_string w of (secret, w1) \<Rightarrow>
        (token\<lparr>tokenValue := Some (encodeCookieValue K (series token) secret),
               hash := digest K secret,
               updatedAt := clock w1,
               expiresAt := clock w1 + ageMillis K age\<rparr>, w1))"

section \<open>The session guard\<close>

text \<open>
  The class \<^verbatim>\<open>SessionGuard\<close>: its private fields \<^verbatim>\<open>#name\<close>, \<^verbatim>\<open>#config\<close> and
  \<^verbatim>\<open>#userProvider\<close>, and its public mutable state. (\<^verbatim>\<open>#ctx\<close> and \<^verbatim>\<open>#emitter\<close>
  are the world.) A user is an object, hence truthy: \<^verbatim>\<open>!this.user\<close> is
  \<open>user g = None\<close>.
\<close>

record ('u, 'p) session_guard =
  name :: string
  config :: session_guard_config
  userProvider :: "('u, 'p) user_provider"
  authenticationAttempted :: bool
  isLoggedOut :: bool
  isAuthenticated :: bool
  viaRemember :: bool
  user :: "'u option"

text \<open>The constructor: every flag starts false, the user absent.\<close>

definition SessionGuard ::
  "string \<Rightarrow> session_guard_config \<Rightarrow> ('u, 'p) user_provider \<Rightarrow> ('u, 'p) session_guard" where
  "SessionGuard n c p =
     \<lparr>name = n, config = c, userProvider = p,
      authenticationAttempted = False, isLoggedOut = False,
      isAuthenticated = False, viaRemember = False, user = None\<rparr>"

definition driverName :: string where
  "driverName = ''session''"

definition sessionKeyName :: "('u, 'p) session_guard \<Rightarrow> string" where
  "sessionKeyName g = ''auth_'' @ name g"

definition rememberMeKeyName :: "('u, 'p) session_guard \<Rightarrow> string" where
  "rememberMeKeyName g = ''remember_'' @ name g"

text \<open>\<^verbatim>\<open>this.#config.rememberMeTokenAge || '2years'\<close>\<close>

definition tokenAge :: "('u, 'p) session_guard \<Rightarrow> token_age" where
  "tokenAge g =
     (case rememberMeTokenAge (config g) of
        None \<Rightarrow> AgeString ''2years''
      | Some a \<Rightarrow> if truthy_age a then a else AgeString ''2years'')"

definition getSession :: "('u, 'p) world \<Rightarrow> error + session_store" where
  \<open>getSession w =
     (if \<not> hasSession w
      then Inl (RuntimeException
        ''Cannot authenticate user. Install and configure "@adonisjs/session" package'')
      else Inr (session w))\<close>

definition loginFailed :: "('u, 'p) session_guard \<Rightarrow> ('u, 'p) world \<Rightarrow> error \<times> ('u, 'p) world" where
  "loginFailed g w =
     (let err = E_INVALID_CREDENTIALS ''Invalid user credentails'' driverName
      in (err, emit (Login_failed (name g) err) w))"

definition authenticationFailed ::
  "string \<Rightarrow> ('u, 'p) session_guard \<Rightarrow> ('u, 'p) world \<Rightarrow> error \<times> ('u, 'p) world" where
  "authenticationFailed sid g w =
     (let err = E_UNAUTHORIZED_ACCESS ''Invalid or expired user session'' driverName
      in (err, emit (Authentication_failed (name g) err sid) w))"

definition authenticationSucceeded ::
  "string \<Rightarrow> remember_me_token option \<Rightarrow> ('u, 'p) session_guard \<Rightarrow> ('u, 'p) world
     \<Rightarrow> ('u, 'p) session_guard \<times> ('u, 'p) world" where
  "authenticationSucceeded sid rememberMeToken g w =
     (let g1 = g\<lparr>isAuthenticated := True, isLoggedOut := False,
                 viaRemember := (rememberMeToken \<noteq> None)\<rparr>
      in (g1, emit (Authentication_succeeded (name g1) sid (user g1) rememberMeToken) w))"

definition createSessionForUser ::
  "user_id \<Rightarrow> ('u, 'p) session_guard \<Rightarrow> ('u, 'p) world \<Rightarrow> (error + unit) \<times> ('u, 'p) world" where
  "createSessionForUser uid g w =
     (case getSession w of
        Inl e \<Rightarrow> (Inl e, w)
      | Inr _ \<Rightarrow> (Inr (), session_regenerate (session_put (sessionKeyName g) uid w)))"

definition createRememberMeCookie ::
  "string \<Rightarrow> ('u, 'p) session_guard \<Rightarrow> ('u, 'p) world \<Rightarrow> ('u, 'p) world" where
  "createRememberMeCookie v g w =
     perform (Response_encryptedCookie (rememberMeKeyName g) v (tokenAge g)) w"

subsection \<open>Calls to the provider\<close>

text \<open>Each call is logged, then run on the provider's state.\<close>

definition call_provider ::
  "'u effect \<Rightarrow> ('p \<Rightarrow> (error + 'a) \<times> 'p) \<Rightarrow> ('u, 'p) world \<Rightarrow> (error + 'a) \<times> ('u, 'p) world" where
  "call_provider e f w =
     (case f (providerState (perform e w)) of
        (r, p1) \<Rightarrow> (r, (perform e w)\<lparr>providerState := p1\<rparr>))"

subsection \<open>Private methods\<close>

text \<open>
  \<^verbatim>\<open>#recycleRememberMeToken\<close>. \<open>updatedAtWithBuffer\<close> is the local variable of
  that name: a copy of \<^verbatim>\<open>token.updatedAt\<close> after
  \<^verbatim>\<open>setSeconds(getSeconds() + 60)\<close>. The token is an object that \<^verbatim>\<open>refresh\<close>
  mutates, so the model returns it beside the world. The token is refreshed before the
  provider's method is called, so a provider without the method (excluded by the
  caller's check) would fail after the refresh.
\<close>

definition updatedAtWithBuffer :: "('u, 'p) world \<Rightarrow> remember_me_token \<Rightarrow> int" where
  "updatedAtWithBuffer w token =
     setSeconds w (getSeconds w (updatedAt token) + 60) (updatedAt token)"

definition recycleRememberMeToken ::
  "token_kit \<Rightarrow> remember_me_token \<Rightarrow> string \<Rightarrow> ('u, 'p) session_guard \<Rightarrow> ('u, 'p) world
     \<Rightarrow> (error + unit) \<times> remember_me_token \<times> ('u, 'p) world" where
  "recycleRememberMeToken K token rememberMeCookie g w =
     (if clock w > updatedAtWithBuffer w token then
        (case RememberMeToken_refresh K (tokenAge g) token w of (token1, w1) \<Rightarrow>
          (case recycleRememberMeToken_provider (userProvider g) of
             None \<Rightarrow> (Inl (TypeError ''recycleRememberMeToken is not a function''), token1, w1)
           | Some recycle \<Rightarrow>
               (case call_provider (Provider_recycleRememberMeToken token1) (recycle token1) w1 of
                  (Inl e, w2) \<Rightarrow> (Inl e, token1, w2)
                | (Inr _, w2) \<Rightarrow>
                    (case tokenValue token1 of
                       None \<Rightarrow> (Inl (TypeError ''Cannot read properties of undefined''), token1, w2)
                     | Some v \<Rightarrow> (Inr (), token1, createRememberMeCookie v g w2)))))
      else (Inr (), token, createRememberMeCookie rememberMeCookie g w))"

text \<open>\<^verbatim>\<open>#authenticateViaId\<close>\<close>

definition authenticateViaId ::
  "user_id \<Rightarrow> string \<Rightarrow> ('u, 'p) session_guard \<Rightarrow> ('u, 'p) world
     \<Rightarrow> (error + 'u) \<times> ('u, 'p) session_guard \<times> ('u, 'p) world" where
  "authenticateViaId loggedInUserId sid g w =
     (case call_provider (Provider_findById loggedInUserId)
             (findById (userProvider g) loggedInUserId) w of
        (Inl e, w1) \<Rightarrow> (Inl e, g, w1)
      | (Inr None, w1) \<Rightarrow>
          (case authenticationFailed sid g w1 of (err, w2) \<Rightarrow> (Inl err, g, w2))
      | (Inr (Some providerUser), w1) \<Rightarrow>
          (case authenticationSucceeded sid None (g\<lparr>user := Some (getOriginal providerUser)\<rparr>) w1 of
             (g1, w2) \<Rightarrow> (Inr (getOriginal providerUser), g1, w2)))"

text \<open>
  \<^verbatim>\<open>#authenticateViaRememberCookie\<close>. The steps after the token was found and
  verified are \<open>loginFromRememberMeToken\<close>, the rest of the same method.
\<close>

definition loginFromRememberMeToken ::
  "token_kit \<Rightarrow> remember_me_token \<Rightarrow> string \<Rightarrow> string \<Rightarrow> ('u, 'p) session_guard \<Rightarrow> ('u, 'p) world
     \<Rightarrow> (error + 'u) \<times> ('u, 'p) session_guard \<times> ('u, 'p) world" where
  "loginFromRememberMeToken K token rememberMeCookie sid g w =
     (case call_provider (Provider_findById (userId token))
             (findById (userProvider g) (userId token)) w of
        (Inl e, w1) \<Rightarrow> (Inl e, g, w1)
      | (Inr None, w1) \<Rightarrow>
          (case authenticationFailed sid g w1 of (err, w2) \<Rightarrow> (Inl err, g, w2))
      | (Inr (Some providerUser), w1) \<Rightarrow>
          (case createSessionForUser (getId providerUser) g w1 of
             (Inl e, w2) \<Rightarrow> (Inl e, g, w2)
           | (Inr _, w2) \<Rightarrow>
               (case authenticationSucceeded sid (Some token)
                       (g\<lparr>user := Some (getOriginal providerUser)\<rparr>) w2 of
                  (g1, w3) \<Rightarrow>
                    (case recycleRememberMeToken K token rememberMeCookie g1 w3 of
                       (Inl e, _, w4) \<Rightarrow> (Inl e, g1, w4)
                     | (Inr _, _, w4) \<Rightarrow> (Inr (getOriginal providerUser), g1, w4)))))"

definition authenticateViaRememberCookie ::
  "token_kit \<Rightarrow> string \<Rightarrow> string \<Rightarrow> ('u, 'p) session_guard \<Rightarrow> ('u, 'p) world
     \<Rightarrow> (error + 'u) \<times> ('u, 'p) session_guard \<times> ('u, 'p) world" where
  "authenticateViaRememberCookie K rememberMeCookie sid g w =
     (case (findRememberMeTokenBySeries (userProvider g),
            recycleRememberMeToken_provider (userProvider g)) of
        (Some findToken, Some _) \<Rightarrow>
          (case RememberMeToken_decode K rememberMeCookie of
             None \<Rightarrow> (case authenticationFailed sid g w of (err, w1) \<Rightarrow> (Inl err, g, w1))
           | Some (decodedSeries, decodedValue) \<Rightarrow>
               (case call_provider (Provider_findRememberMeTokenBySeries decodedSeries)
                       (findToken decodedSeries) w of
                  (Inl e, w1) \<Rightarrow> (Inl e, g, w1)
                | (Inr tokenFound, w1) \<Rightarrow>
                    (case tokenFound of
                       None \<Rightarrow>
                         (case authenticationFailed sid g w1 of (err, w2) \<Rightarrow> (Inl err, g, w2))
                     | Some token \<Rightarrow>
                         if \<not> RememberMeToken_verify K token decodedValue \<or> guard token \<noteq> name g
                         then (case authenticationFailed sid g w1 of (err, w2) \<Rightarrow> (Inl err, g, w2))
                         else loginFromRememberMeToken K token rememberMeCookie sid g w1)))
      | _ \<Rightarrow> (case authenticationFailed sid g w of (err, w1) \<Rightarrow> (Inl err, g, w1)))"

subsection \<open>Public methods\<close>

definition getUserOrFail :: "('u, 'p) session_guard \<Rightarrow> error + 'u" where
  "getUserOrFail g =
     (case user g of
        None \<Rightarrow> Inl (E_UNAUTHORIZED_ACCESS ''Invalid or expired user session'' driverName)
      | Some u \<Rightarrow> Inr u)"

text \<open>
  \<^verbatim>\<open>authenticate\<close>. \<^verbatim>\<open>if (loggedInUserId)\<close> and \<^verbatim>\<open>if (rememberMeCookie)\<close> are
  truthiness tests: a stored id of \<^verbatim>\<open>0\<close> and an empty cookie count as absent.
  The early \<^verbatim>\<open>return\<close>s of the source are the branches of the two case distinctions.
\<close>

definition authenticate ::
  "token_kit \<Rightarrow> ('u, 'p) session_guard \<Rightarrow> ('u, 'p) world
     \<Rightarrow> (error + 'u) \<times> ('u, 'p) session_guard \<times> ('u, 'p) world" where
  "authenticate K g w =
     (if authenticationAttempted g then (getUserOrFail g, g, w)
      else
        (let g1 = g\<lparr>authenticationAttempted := True\<rparr> in
         case getSession w of
           Inl e \<Rightarrow> (Inl e, g1, w)
         | Inr s \<Rightarrow>
             (let w1 = emit (Authentication_attempted (name g1) (sessionId s)) w in
              case when_truthy truthy_id (session_get (sessionKeyName g1) w1) of
                Some loggedInUserId \<Rightarrow> authenticateViaId loggedInUserId (sessionId s) g1 w1
              | None \<Rightarrow>
                  (case when_truthy truthy_string (requestCookies w1 (rememberMeKeyName g1)) of
                     Some rememberMeCookie \<Rightarrow>
                       authenticateViaRememberCookie K rememberMeCookie (sessionId s) g1 w1
                   | None \<Rightarrow>
                       (case authenticationFailed (sessionId s) g1 w1 of
                          (err, w2) \<Rightarrow> (Inl err, g1, w2))))))"

definition check ::
  "token_kit \<Rightarrow> ('u, 'p) session_guard \<Rightarrow> ('u, 'p) world
     \<Rightarrow> (error + bool) \<times> ('u, 'p) session_guard \<times> ('u, 'p) world" where
  "check K g w =
     (case authenticate K g w of
        (Inr _, g1, w1) \<Rightarrow> (Inr True, g1, w1)
      | (Inl err, g1, w1) \<Rightarrow>
          if instanceof_E_UNAUTHORIZED_ACCESS err then (Inr False, g1, w1)
          else (Inl err, g1, w1))"

text \<open>\<^verbatim>\<open>verifyCredentials\<close>\<close>

definition verifyCredentials ::
  "string \<Rightarrow> string \<Rightarrow> ('u, 'p) session_guard \<Rightarrow> ('u, 'p) world
     \<Rightarrow> (error + 'u) \<times> ('u, 'p) session_guard \<times> ('u, 'p) world" where
  "verifyCredentials uid password g w =
     (case call_provider (Provider_verifyCredentials uid password)
             (verifyCredentials_provider (userProvider g) uid password) w of
        (Inl e, w1) \<Rightarrow> (Inl e, g, w1)
      | (Inr None, w1) \<Rightarrow> (case loginFailed g w1 of (err, w2) \<Rightarrow> (Inl err, g, w2))
      | (Inr (Some providerUser), w1) \<Rightarrow>
          (Inr (getOriginal providerUser), g,
           emit (Credentials_verified (name g) uid (getOriginal providerUser)) w1))"

text \<open>
  \<^verbatim>\<open>login\<close>. The remember-me step is the \<^verbatim>\<open>if (remember)\<close> block of the method,
  \<open>rememberMeUnsupported\<close> the exception it throws at a provider without
  \<^verbatim>\<open>createRememberMeToken\<close>;
  \<open>session.sessionId\<close> of the last event is read after the session was regenerated.
\<close>

definition rememberMeUnsupported :: error where
  \<open>rememberMeUnsupported =
     Exception ''Cannot use "rememberMe" feature. The provider does not implement the "createRememberMeToken" method''\<close>

definition rememberMeStep ::
  "token_kit \<Rightarrow> user_id \<Rightarrow> bool \<Rightarrow> ('u, 'p) session_guard \<Rightarrow> ('u, 'p) world
     \<Rightarrow> (error + unit) \<times> ('u, 'p) world" where
  \<open>rememberMeStep K uid remember g w =
     (if remember then
        (case createRememberMeToken (userProvider g) of
           None \<Rightarrow>
             (Inl rememberMeUnsupported, w)
         | Some create \<Rightarrow>
             (case RememberMeToken_create K uid (tokenAge g) (name g) w of (token, w1) \<Rightarrow>
               (case call_provider (Provider_createRememberMeToken token) (create token) w1 of
                  (Inl e, w2) \<Rightarrow> (Inl e, w2)
                | (Inr _, w2) \<Rightarrow>
                    (case tokenValue token of
                       None \<Rightarrow> (Inl (TypeError ''Cannot read properties of undefined''), w2)
                     | Some v \<Rightarrow> (Inr (), createRememberMeCookie v g w2)))))
      else (Inr (), perform (Response_clearCookie (rememberMeKeyName g)) w))\<close>

definition login ::
  "token_kit \<Rightarrow> 'u \<Rightarrow> bool \<Rightarrow> ('u, 'p) session_guard \<Rightarrow> ('u, 'p) world
     \<Rightarrow> (error + 'u) \<times> ('u, 'p) session_guard \<times> ('u, 'p) world" where
  "login K usr remember g w =
     (let w0 = emit (Login_attempted usr (name g)) w in
      case getSession w0 of
        Inl e \<Rightarrow> (Inl e, g, w0)
      | Inr _ \<Rightarrow>
          (case call_provider (Provider_createUserForGuard usr)
                  (createUserForGuard (userProvider g) usr) w0 of
             (Inl e, w1) \<Rightarrow> (Inl e, g, w1)
           | (Inr providerUser, w1) \<Rightarrow>
               (case rememberMeStep K (getId providerUser) remember g w1 of
                  (Inl e, w2) \<Rightarrow> (Inl e, g, w2)
                | (Inr _, w2) \<Rightarrow>
                    (case createSessionForUser (getId providerUser) g w2 of
                       (Inl e, w3) \<Rightarrow> (Inl e, g, w3)
                     | (Inr _, w3) \<Rightarrow>
                         (Inr usr, g\<lparr>user := Some usr, isLoggedOut := False\<rparr>,
                          emit (Login_succeeded (name g) usr (sessionId (session w3))) w3)))))"

text \<open>\<^verbatim>\<open>attempt\<close>\<close>

definition attempt ::
  "token_kit \<Rightarrow> string \<Rightarrow> string \<Rightarrow> bool \<Rightarrow> ('u, 'p) session_guard \<Rightarrow> ('u, 'p) world
     \<Rightarrow> (error + 'u) \<times> ('u, 'p) session_guard \<times> ('u, 'p) world" where
  "attempt K uid password remember g w =
     (case verifyCredentials uid password g w of
        (Inl e, g1, w1) \<Rightarrow> (Inl e, g1, w1)
      | (Inr usr, g1, w1) \<Rightarrow> login K usr remember g1 w1)"

text \<open>\<^verbatim>\<open>loginViaId\<close>\<close>

definition loginViaId ::
  "token_kit \<Rightarrow> user_id \<Rightarrow> bool \<Rightarrow> ('u, 'p) session_guard \<Rightarrow> ('u, 'p) world
     \<Rightarrow> (error + 'u) \<times> ('u, 'p) session_guard \<times> ('u, 'p) world" where
  "loginViaId K uid remember g w =
     (case call_provider (Provider_findById uid) (findById (userProvider g) uid) w of
        (Inl e, w1) \<Rightarrow> (Inl e, g, w1)
      | (Inr None, w1) \<Rightarrow> (case loginFailed g w1 of (err, w2) \<Rightarrow> (Inl err, g, w2))
      | (Inr (Some providerUser), w1) \<Rightarrow> login K (getOriginal providerUser) remember g w1)"

text \<open>
  \<^verbatim>\<open>logout\<close>. The event's \<^verbatim>\<open>user: this.user || null\<close> is read after the user was
  reset. \<open>revokeRememberMeToken\<close> is the method from its first early \<^verbatim>\<open>return\<close> on.
\<close>

definition revokeRememberMeToken ::
  "token_kit \<Rightarrow> string option \<Rightarrow> ('u, 'p) session_guard \<Rightarrow> ('u, 'p) world
     \<Rightarrow> (error + unit) \<times> ('u, 'p) world" where
  "revokeRememberMeToken K rememberMeCookie g w =
     (case (when_truthy truthy_string rememberMeCookie,
            deleteRememberMeTokenBySeries (userProvider g)) of
        (Some cookie, Some delete) \<Rightarrow>
          (case RememberMeToken_decode K cookie of
             None \<Rightarrow> (Inr (), w)
           | Some (decodedSeries, _) \<Rightarrow>
               call_provider (Provider_deleteRememberMeTokenBySeries decodedSeries)
                 (delete decodedSeries) w)
      | _ \<Rightarrow> (Inr (), w))"

definition logout ::
  "token_kit \<Rightarrow> ('u, 'p) session_guard \<Rightarrow> ('u, 'p) world
     \<Rightarrow> (error + unit) \<times> ('u, 'p) session_guard \<times> ('u, 'p) world" where
  "logout K g w =
     (case getSession w of
        Inl e \<Rightarrow> (Inl e, g, w)
      | Inr _ \<Rightarrow>
          (let rememberMeCookie = requestCookies w (rememberMeKeyName g);
               w1 = session_forget (sessionKeyName g) w;
               w2 = perform (Response_clearCookie (rememberMeKeyName g)) w1;
               g1 = g\<lparr>user := None, viaRemember := False,
                       isAuthenticated := False, isLoggedOut := True\<rparr>;
               w3 = emit (Logged_out (name g1) (user g1) (sessionId (session w2))) w2
           in case revokeRememberMeToken K rememberMeCookie g1 w3 of
                (r, w4) \<Rightarrow> (r, g1, w4)))"

text \<open>\<^verbatim>\<open>authenticateAsClient\<close>: the session entry a test client sends.\<close>

definition authenticateAsClient ::
  "'u \<Rightarrow> ('u, 'p) session_guard \<Rightarrow> ('u, 'p) world
     \<Rightarrow> (error + string \<times> user_id) \<times> ('u, 'p) session_guard \<times> ('u, 'p) world" where
  "authenticateAsClient usr g w =
     (case call_provider (Provider_createUserForGuard usr)
             (createUserForGuard (userProvider g) usr) w of
        (Inl e, w1) \<Rightarrow> (Inl e, g, w1)
      | (Inr providerUser, w1) \<Rightarrow> (Inr (sessionKeyName g, getId providerUser), g, w1))"

subsection \<open>Observations on a run\<close>

text \<open>The effects a run added to the trace, and the token a recycling refreshes.\<close>

definition new_effects :: "('u, 'p) world \<Rightarrow> ('u, 'p) world \<Rightarrow> 'u effect list" where
  "new_effects w w1 = drop (length (trace w)) (trace w1)"

definition refreshed ::
  "token_kit \<Rightarrow> ('u, 'p) session_guard \<Rightarrow> remember_me_token \<Rightarrow> ('u, 'p) world \<Rightarrow> remember_me_token" where
  "refreshed K g token w = fst (RememberMeToken_refresh K (tokenAge g) token w)"


section \<open>An in-memory provider and sample requests\<close>

text \<open>
  A small application to run the guard on: members with a numeric id, a store of
  members and persisted tokens, and a provider over that store.
\<close>

record member =
  memberId :: int
  memberName :: string

record store =
  members :: "member list"
  tokens :: "remember_me_token list"

definition member_adapter :: "member \<Rightarrow> member guard_user" where
  "member_adapter m = \<lparr>getId = IdNumber (memberId m), getOriginal = m\<rparr>"

definition store_findById :: "user_id \<Rightarrow> store \<Rightarrow> (error + member guard_user option) \<times> store" where
  "store_findById i db =
     (Inr (map_option member_adapter (find (\<lambda>m. IdNumber (memberId m) = i) (members db))), db)"

definition store_verifyCredentials ::
  "string \<Rightarrow> string \<Rightarrow> store \<Rightarrow> (error + member guard_user option) \<times> store" where
  "store_verifyCredentials uid password db =
     (Inr (map_option member_adapter
        (find (\<lambda>m. memberName m = uid \<and> password = ''secret'') (members db))), db)"

definition store_createUserForGuard :: "member \<Rightarrow> store \<Rightarrow> (error + member guard_user) \<times> store" where
  "store_createUserForGuard m db = (Inr (member_adapter m), db)"

definition store_findToken :: "string \<Rightarrow> store \<Rightarrow> (error + remember_me_token option) \<times> store" where
  "store_findToken s db = (Inr (find (\<lambda>t. series t = s) (tokens db)), db)"

definition store_createToken :: "remember_me_token \<Rightarrow> store \<Rightarrow> (error + unit) \<times> store" where
  "store_createToken t db = (Inr (), db\<lparr>tokens := t # tokens db\<rparr>)"

definition store_recycleToken :: "remember_me_token \<Rightarrow> store \<Rightarrow> (error + unit) \<times> store" where
  "store_recycleToken t db =
     (Inr (), db\<lparr>tokens := map (\<lambda>x. if series x = series t then t else x) (tokens db)\<rparr>)"

definition store_deleteToken :: "string \<Rightarrow> store \<Rightarrow> (error + unit) \<times> store" where
  "store_deleteToken s db = (Inr (), db\<lparr>tokens := filter (\<lambda>t. series t \<noteq> s) (tokens db)\<rparr>)"

text \<open>A provider with every optional method, one with none, and one whose lookup throws.\<close>

definition full_provider :: "(member, store) user_provider" where
  "full_provider =
     \<lparr>findById = store_findById,
      verifyCredentials_provider = store_verifyCredentials,
      createUserForGuard = store_createUserForGuard,
      findRememberMeTokenBySeries = Some store_findToken,
      createRememberMeToken = Some store_createToken,
      recycleRememberMeToken_provider = Some store_recycleToken,
      deleteRememberMeTokenBySeries = Some store_deleteToken\<rparr>"

definition basic_provider :: "(member, store) user_provider" where
  "basic_provider =
     full_provider\<lparr>findRememberMeTokenBySeries := None, createRememberMeToken := None,
                   recycleRememberMeToken_provider := None, deleteRememberMeTokenBySeries := None\<rparr>"

definition failing_provider :: "(member, store) user_provider" where
  "failing_provider =
     full_provider\<lparr>findById := (\<lambda>i db. (Inl (CollaboratorFailure ''connection lost''), db))\<rparr>"

text \<open>A token kit: a digest that tags the secret, and a cookie \<open>series.secret\<close>.\<close>

definition dot_decode :: "string \<Rightarrow> (string \<times> string) option" where
  "dot_decode c =
     (let a = takeWhile (\<lambda>x. x \<noteq> CHR ''.'') c; b = drop (Suc (length a)) c
      in if a = [] \<or> b = [] then None else Some (a, b))"

definition plain_kit :: token_kit where
  "plain_kit =
     \<lparr>digest = (\<lambda>s. ''sha:'' @ s),
      ageMillis = (\<lambda>a. 63072000000),
      encodeCookieValue = (\<lambda>a b. a @ ''.'' @ b),
      decodeCookieValue = dot_decode\<rparr>"

definition alice :: member where
  "alice = \<lparr>memberId = 7, memberName = ''alice''\<rparr>"

text \<open>Alice's persisted token: series \<open>s1\<close>, secret \<open>abc\<close>, last updated at time 1000.\<close>

definition alice_token :: remember_me_token where
  "alice_token =
     \<lparr>series = ''s1'', tokenValue = None, hash = ''sha:abc'', userId = IdNumber 7,
      guard = ''web'', createdAt = 1000, updatedAt = 1000, expiresAt = 63072001000\<rparr>"

definition sample_store :: store where
  "sample_store = \<lparr>members = [alice], tokens = [alice_token]\<rparr>"

definition web_guard :: "(member, store) user_provider \<Rightarrow> (member, store) session_guard" where
  "web_guard p = SessionGuard ''web'' \<lparr>rememberMeTokenAge = None\<rparr> p"

text \<open>
  A request: its session entries, its cookies, the store and the time, on a host whose
  local time is UTC.
\<close>

definition request ::
  "(string \<Rightarrow> user_id option) \<Rightarrow> (string \<Rightarrow> string option) \<Rightarrow> store \<Rightarrow> int \<Rightarrow> (member, store) world" where
  "request sess cookies db now =
     \<lparr>hasSession = True,
      session = \<lparr>entries = sess, sessionId = ''sid0''\<rparr>,
      requestCookies = cookies,
      providerState = db,
      trace = [],
      clock = now,
      localTZA = (\<lambda>t isUTC. 0),
      entropy = (\<lambda>n. ''fresh'' @ replicate n (CHR ''x'')),
      drawn = 0\<rparr>"

definition remember_cookie :: "string \<Rightarrow> string option" where
  "remember_cookie = (\<lambda>k. if k = ''remember_web'' then Some ''s1.abc'' else None)"

definition no_cookie :: "string \<Rightarrow> string option" where
  "no_cookie = (\<lambda>k. None)"

definition no_entries :: "string \<Rightarrow> user_id option" where
  "no_entries = (\<lambda>k. None)"

definition stored_id :: "user_id \<Rightarrow> string \<Rightarrow> user_id option" where
  "stored_id i = (\<lambda>k. if k = ''auth_web'' then Some i else None)"

definition garbled_cookie :: "string \<Rightarrow> string option" where
  "garbled_cookie = (\<lambda>k. if k = ''remember_web'' then Some ''garbage'' else None)"

text \<open>A store whose token for series \<open>s1\<close> was issued by another guard, \<open>api\<close>.\<close>

definition foreign_store :: store where
  "foreign_store = \<lparr>members = [alice], tokens = [alice_token\<lparr>guard := ''api''\<rparr>]\<rparr>"

text \<open>
  A host in New York around the end of daylight saving time in 2026: at
  1793512800000 (06:00 UTC on 1 November) local clocks go back from 02:00 to 01:00 and
  the offset from four hours to five. A local time in the repeated hour is read with the
  offset before the change.
\<close>

definition new_york_autumn_2026 :: "int \<Rightarrow> bool \<Rightarrow> int" where
  "new_york_autumn_2026 t isUTC =
     (if isUTC
      then (if t < 1793512800000 then - 14400000 else - 18000000)
      else (if t < 1793512800000 - 14400000 then - 14400000 else - 18000000))"

definition in_zone :: "(int \<Rightarrow> bool \<Rightarrow> int) \<Rightarrow> ('u, 'p) world \<Rightarrow> ('u, 'p) world" where
  "in_zone z w = w\<lparr>localTZA := z\<rparr>"

text \<open>
  Alice's token last updated at 01:30 local time in the repeated hour (06:30 UTC), and
  at 01:59:30 local time half a minute before the change (05:59:30 UTC), and the stores
  that hold them.
\<close>

definition token_updated_in_repeated_hour :: remember_me_token where
  "token_updated_in_repeated_hour = alice_token\<lparr>updatedAt := 1793514600000\<rparr>"

definition token_updated_before_change :: remember_me_token where
  "token_updated_before_change = alice_token\<lparr>updatedAt := 1793512770000\<rparr>"

definition store_with_token :: "remember_me_token \<Rightarrow> store" where
  "store_with_token t = \<lparr>members = [alice], tokens = [t]\<rparr>"

section \<open>Unfolding sets and facts shared by the proofs\<close>

text \<open>
  Taking a local time apart and putting it together with sixty more seconds adds 60000
  milliseconds to it. So the buffer is \<^verbatim>\<open>updatedAt\<close> plus 60000 milliseconds, moved
  by the difference between the offset at \<^verbatim>\<open>updatedAt\<close> and the offset the host
  gives for the local time a minute later.
\<close>

lemma sixty_seconds_later:
  "MakeDate (Day t) (MakeTime (HourFromTime t) (MinFromTime t) (SecFromTime t + 60) (msFromTime t))
     = t + 60000"
proof -
  define s where "s = t div 1000"
  define m where "m = s div 60"
  define h where "h = m div 60"
  define d where "d = h div 24"
  have dm: "t div 60000 = m"
    using zdiv_zmult2_eq [of 60 t 1000] by (simp add: s_def m_def)
  have dh: "t div 3600000 = h"
    using zdiv_zmult2_eq [of 60 t 60000] dm by (simp add: h_def)
  have dd: "t div 86400000 = d"
    using zdiv_zmult2_eq [of 24 t 3600000] dh by (simp add: d_def)
  have e1: "t = s * 1000 + t mod 1000"
    by (simp add: s_def)
  have e2: "s = m * 60 + s mod 60"
    by (simp add: m_def)
  have e3: "m = h * 60 + m mod 60"
    by (simp add: h_def)
  have e4: "h = d * 24 + h mod 24"
    by (simp add: d_def)
  have "d * 86400000 + (h mod 24 * 3600000 + m mod 60 * 60000 + (s mod 60 + 60) * 1000 + t mod 1000)
          = (d * 24 + h mod 24) * 3600000 + m mod 60 * 60000 + s mod 60 * 1000 + t mod 1000 + 60000"
    by (simp add: algebra_simps)
  also have "\<dots> = (h * 60 + m mod 60) * 60000 + s mod 60 * 1000 + t mod 1000 + 60000"
    using e4 by (simp add: algebra_simps)
  also have "\<dots> = (m * 60 + s mod 60) * 1000 + t mod 1000 + 60000"
    using e3 by (simp add: algebra_simps)
  also have "\<dots> = t + 60000"
    using e2 e1 by simp
  finally show ?thesis
    by (simp add: MakeDate_def MakeTime_def Day_def HourFromTime_def MinFromTime_def
        SecFromTime_def msFromTime_def msPerSecond_def msPerMinute_def msPerHour_def msPerDay_def
        dm dh dd s_def [symmetric])
qed

lemma updatedAtWithBuffer_local:
  "updatedAtWithBuffer w token =
     updatedAt token + 60000 + localTZA w (updatedAt token) True
       - localTZA w (updatedAt token + localTZA w (updatedAt token) True + 60000) False"
  by (simp add: updatedAtWithBuffer_def setSeconds_def getSeconds_def sixty_seconds_later
      LocalTime_def UTC_def Let_def)

lemmas fixture_defs = plain_kit_def dot_decode_def alice_def alice_token_def sample_store_def
  web_guard_def request_def remember_cookie_def no_cookie_def no_entries_def stored_id_def
  garbled_cookie_def foreign_store_def new_york_autumn_2026_def in_zone_def
  token_updated_in_repeated_hour_def token_updated_before_change_def store_with_token_def
  full_provider_def basic_provider_def failing_provider_def member_adapter_def
  store_findById_def store_verifyCredentials_def store_createUserForGuard_def store_findToken_def
  store_createToken_def store_recycleToken_def store_deleteToken_def SessionGuard_def

lemmas guard_defs = authenticate_def authenticateViaId_def authenticateViaRememberCookie_def
  loginFromRememberMeToken_def recycleRememberMeToken_def check_def getUserOrFail_def
  login_def rememberMeStep_def logout_def revokeRememberMeToken_def attempt_def loginViaId_def
  verifyCredentials_def authenticateAsClient_def createSessionForUser_def createRememberMeCookie_def
  authenticationSucceeded_def authenticationFailed_def loginFailed_def getSession_def
  call_provider_def perform_def emit_def random_string_def session_get_def session_put_def
  session_forget_def session_regenerate_def RememberMeToken_create_def RememberMeToken_decode_def
  RememberMeToken_verify_def RememberMeToken_refresh_def tokenAge_def sessionKeyName_def
  rememberMeKeyName_def driverName_def truthy_string_def Let_def updatedAtWithBuffer_local

subsection \<open>Refreshing and recycling a token\<close>

lemma refreshed_fields:
  "hash (refreshed K g token w) = digest K (entropy w (drawn w))"
  "tokenValue (refreshed K g token w) = Some (encodeCookieValue K (series token) (entropy w (drawn w)))"
  "updatedAt (refreshed K g token w) = clock w"
  "expiresAt (refreshed K g token w) = clock w + ageMillis K (tokenAge g)"
  "series (refreshed K g token w) = series token"
  "userId (refreshed K g token w) = userId token"
  "guard (refreshed K g token w) = guard token"
  by (simp_all add: refreshed_def RememberMeToken_refresh_def random_string_def)

text \<open>
  The buffer is \<^verbatim>\<open>updatedAt\<close> plus 60000 milliseconds whenever the host gives one
  offset for \<^verbatim>\<open>updatedAt\<close> and for the local time a minute later.
\<close>

lemma updatedAtWithBuffer_steady_offset:
  assumes "localTZA w (updatedAt token) True = c"
    and "localTZA w (updatedAt token + c + 60000) False = c"
  shows "updatedAtWithBuffer w token = updatedAt token + 60000"
  using assms by (simp add: updatedAtWithBuffer_local)

lemma recycle_within_buffer:
  "clock w \<le> updatedAtWithBuffer w token \<Longrightarrow>
     recycleRememberMeToken K token cookie g w =
       (Inr (), token, perform (Response_encryptedCookie (rememberMeKeyName g) cookie (tokenAge g)) w)"
  by (simp add: recycleRememberMeToken_def createRememberMeCookie_def)

lemma recycle_after_buffer:
  assumes "updatedAtWithBuffer w token < clock w"
    and "recycleRememberMeToken_provider (userProvider g) = Some recycle"
    and "recycle (refreshed K g token w) (providerState w) = (Inr (), p1)"
  shows "recycleRememberMeToken K token cookie g w =
           (Inr (), refreshed K g token w,
            w\<lparr>drawn := Suc (drawn w), providerState := p1,
              trace := trace w @
                [Provider_recycleRememberMeToken (refreshed K g token w),
                 Response_encryptedCookie (rememberMeKeyName g)
                   (encodeCookieValue K (series token) (entropy w (drawn w))) (tokenAge g)]\<rparr>)"
  using assms
  by (simp add: recycleRememberMeToken_def refreshed_def RememberMeToken_refresh_def
      random_string_def call_provider_def perform_def createRememberMeCookie_def)

subsection \<open>What authentication does to the guard\<close>










text \<open>
  A stored id that passes the truthiness test and that \<^verbatim>\<open>findById\<close> does not resolve:
  the guard fails with the unauthorized error after one lookup and writes nothing to
  the session.
\<close>

lemma stale_truthy_session_id:
  assumes "\<not> authenticationAttempted g" and "hasSession w"
    and "entries (session w) (sessionKeyName g) = Some i" and "truthy_id i"
    and "findById (userProvider g) i (providerState w) = (Inr None, p1)"
  shows "authenticate K g w =
           (Inl (E_UNAUTHORIZED_ACCESS ''Invalid or expired user session'' driverName),
            g\<lparr>authenticationAttempted := True\<rparr>,
            w\<lparr>providerState := p1,
              trace := trace w @
                [Emit (Authentication_attempted (name g) (sessionId (session w))),
                 Provider_findById i,
                 Emit (Authentication_failed (name g)
                   (E_UNAUTHORIZED_ACCESS ''Invalid or expired user session'' driverName)
                   (sessionId (session w)))]\<rparr>)"
  using assms
  by (simp add: authenticate_def getSession_def emit_def perform_def session_get_def
      sessionKeyName_def authenticateViaId_def call_provider_def authenticationFailed_def Let_def)

section \<open>The claims\<close>

subsection \<open>C1: recycling and the 60 second buffer\<close>

text \<open>
  How an authentication reaches recycling: a first \<^verbatim>\<open>authenticate\<close> that finds no
  truthy stored id, reads a cookie that decodes, finds a token of its own guard that
  verifies the cookie's secret, and resolves the token's user, ends in
  \<^verbatim>\<open>#recycleRememberMeToken\<close> on that token and that cookie, at the same clock, in
  the same time zone and with the same provider.
\<close>

lemma authenticate_reaches_recycling:
  assumes "\<not> authenticationAttempted g" and "hasSession w"
    and "when_truthy truthy_id (entries (session w) (sessionKeyName g)) = None"
    and "requestCookies w (rememberMeKeyName g) = Some cookie" and "cookie \<noteq> []"
    and "findRememberMeTokenBySeries (userProvider g) = Some findToken"
    and "recycleRememberMeToken_provider (userProvider g) = Some recycle"
    and "RememberMeToken_decode K cookie = Some (ser, secret)"
    and "findToken ser (providerState w) = (Inr (Some token), p1)"
    and "RememberMeToken_verify K token secret" and "guard token = name g"
    and "findById (userProvider g) (userId token) p1 = (Inr (Some pu), p2)"
  shows "\<exists>g1 w3. clock w3 = clock w \<and> localTZA w3 = localTZA w
           \<and> userProvider g1 = userProvider g \<and> name g1 = name g \<and> config g1 = config g
           \<and> (\<forall>r t w4. recycleRememberMeToken K token cookie g1 w3 = (r, t, w4) \<longrightarrow>
                 authenticate K g w =
                   (case r of Inl e \<Rightarrow> Inl e | Inr x \<Rightarrow> Inr (getOriginal pu), g1, w4))"
proof -
  let ?g0 = "g\<lparr>authenticationAttempted := True\<rparr>"
  let ?w0 = "w\<lparr>trace := trace w @ [Emit (Authentication_attempted (name g) (sessionId (session w))),
                                  Provider_findRememberMeTokenBySeries ser],
               providerState := p1\<rparr>"
  let ?w1 = "(perform (Provider_findById (userId token)) ?w0)\<lparr>providerState := p2\<rparr>"
  let ?w2 = "session_regenerate (session_put (sessionKeyName ?g0) (getId pu) ?w1)"
  let ?gs = "authenticationSucceeded (sessionId (session w)) (Some token)
               (?g0\<lparr>user := Some (getOriginal pu)\<rparr>) ?w2"
  have start: "authenticate K g w =
          loginFromRememberMeToken K token cookie (sessionId (session w)) ?g0 ?w0"
    using assms
    by (simp add: authenticate_def getSession_def emit_def perform_def session_get_def
        truthy_string_def authenticateViaRememberCookie_def call_provider_def Let_def
        sessionKeyName_def rememberMeKeyName_def)
  have cp: "call_provider (Provider_findById (userId token))
              (findById (userProvider ?g0) (userId token)) ?w0 = (Inr (Some pu), ?w1)"
    using assms(12) by (simp add: call_provider_def perform_def)
  have cs: "createSessionForUser (getId pu) ?g0 ?w1 = (Inr (), ?w2)"
    using assms(2) by (simp add: createSessionForUser_def getSession_def perform_def)
  obtain g1 w3 where gs: "?gs = (g1, w3)"
    by (cases ?gs)
  have steps: "recycleRememberMeToken K token cookie g1 w3 = (r, t, w4) \<Longrightarrow>
      loginFromRememberMeToken K token cookie (sessionId (session w)) ?g0 ?w0 =
        (case r of Inl e \<Rightarrow> Inl e | Inr x \<Rightarrow> Inr (getOriginal pu), g1, w4)" for r t w4
    unfolding loginFromRememberMeToken_def cp prod.case sum.case option.case cs gs
    by (simp split: sum.splits)
  have frame: "clock w3 = clock w \<and> localTZA w3 = localTZA w \<and> userProvider g1 = userProvider g
               \<and> name g1 = name g \<and> config g1 = config g"
    using gs
    by (auto simp: authenticationSucceeded_def emit_def perform_def session_put_def
        session_regenerate_def random_string_def Let_def)
  show ?thesis
    using start steps frame by metis
qed

text \<open>
  The rule of C1 for a host whose offset does not change around \<^verbatim>\<open>updatedAt\<close>: up
  to 60 seconds after the update the cookie is re-issued and nothing else happens,
  later the token is refreshed, handed to the provider and released into the cookie.
\<close>

lemma recycle_with_steady_offset:
  assumes "localTZA w (updatedAt token) True = c"
    and "localTZA w (updatedAt token + c + 60000) False = c"
    and "recycleRememberMeToken_provider (userProvider g) = Some recycle"
  shows "(clock w \<le> updatedAt token + 60000 \<longrightarrow>
            recycleRememberMeToken K token cookie g w =
              (Inr (), token,
               perform (Response_encryptedCookie (rememberMeKeyName g) cookie (tokenAge g)) w))
       \<and> (updatedAt token + 60000 < clock w \<longrightarrow>
            (\<forall>p1. recycle (refreshed K g token w) (providerState w) = (Inr (), p1) \<longrightarrow>
                recycleRememberMeToken K token cookie g w =
                  (Inr (), refreshed K g token w,
                   w\<lparr>drawn := Suc (drawn w), providerState := p1,
                     trace := trace w @
                       [Provider_recycleRememberMeToken (refreshed K g token w),
                        Response_encryptedCookie (rememberMeKeyName g)
                          (encodeCookieValue K (series token) (entropy w (drawn w)))
                          (tokenAge g)]\<rparr>)))"
  using recycle_within_buffer [of w token K cookie g]
    recycle_after_buffer [OF _ assms(3), of w token K _ cookie]
    updatedAtWithBuffer_steady_offset [OF assms(1,2)]
  by simp

text \<open>
  C1 at the end of daylight saving time, on a host in New York. The buffer is computed
  on local time, and the local time a minute after the update is read with another
  offset than the update itself. For a token updated at 01:30 in the repeated hour the
  buffer ends 59 minutes before the update: a request 30 seconds after the update
  refreshes the token, calls the provider's \<^verbatim>\<open>recycleRememberMeToken\<close> and sets a
  cookie with a new value, and the whole authentication ends with these two effects.
  For a token updated at 01:59:30, before the change, the buffer ends 61 minutes after
  the update: a request 90 seconds after the update gets the old cookie back and the
  token is left as it was.
\<close>

theorem recycle_buffer_breaks_at_clock_change:
  "updatedAtWithBuffer
      (in_zone new_york_autumn_2026 (request no_entries remember_cookie
         (store_with_token token_updated_in_repeated_hour) (1793514600000 + 30000)))
      token_updated_in_repeated_hour = 1793514600000 - 3540000
   \<and> recycleRememberMeToken plain_kit token_updated_in_repeated_hour ''s1.abc''
        (web_guard full_provider)
        (in_zone new_york_autumn_2026 (request no_entries remember_cookie
           (store_with_token token_updated_in_repeated_hour) (1793514600000 + 30000)))
      = (Inr (),
         token_updated_in_repeated_hour
           \<lparr>tokenValue := Some ''s1.fresh'', hash := ''sha:fresh'',
            updatedAt := 1793514630000, expiresAt := 1793514630000 + 63072000000\<rparr>,
         (in_zone new_york_autumn_2026 (request no_entries remember_cookie
            (store_with_token token_updated_in_repeated_hour) (1793514600000 + 30000)))
           \<lparr>drawn := 1,
            providerState := store_with_token
              (token_updated_in_repeated_hour
                 \<lparr>tokenValue := Some ''s1.fresh'', hash := ''sha:fresh'',
                  updatedAt := 1793514630000, expiresAt := 1793514630000 + 63072000000\<rparr>),
            trace :=
              [Provider_recycleRememberMeToken
                 (token_updated_in_repeated_hour
                    \<lparr>tokenValue := Some ''s1.fresh'', hash := ''sha:fresh'',
                     updatedAt := 1793514630000, expiresAt := 1793514630000 + 63072000000\<rparr>),
               Response_encryptedCookie ''remember_web'' ''s1.fresh'' (AgeString ''2years'')]\<rparr>)
   \<and> fst (authenticate plain_kit (web_guard full_provider)
        (in_zone new_york_autumn_2026 (request no_entries remember_cookie
           (store_with_token token_updated_in_repeated_hour) (1793514600000 + 30000))))
      = Inr alice
   \<and> drop 6 (trace (snd (snd (authenticate plain_kit (web_guard full_provider)
        (in_zone new_york_autumn_2026 (request no_entries remember_cookie
           (store_with_token token_updated_in_repeated_hour) (1793514600000 + 30000)))))))
      = [Provider_recycleRememberMeToken
           (token_updated_in_repeated_hour
              \<lparr>tokenValue := Some ''s1.freshx'', hash := ''sha:freshx'',
               updatedAt := 1793514630000, expiresAt := 1793514630000 + 63072000000\<rparr>),
         Response_encryptedCookie ''remember_web'' ''s1.freshx'' (AgeString ''2years'')]
   \<and> updatedAtWithBuffer
        (in_zone new_york_autumn_2026 (request no_entries remember_cookie
           (store_with_token token_updated_before_change) (1793512770000 + 90000)))
        token_updated_before_change = 1793512770000 + 3660000
   \<and> recycleRememberMeToken plain_kit token_updated_before_change ''s1.abc''
        (web_guard full_provider)
        (in_zone new_york_autumn_2026 (request no_entries remember_cookie
           (store_with_token token_updated_before_change) (1793512770000 + 90000)))
      = (Inr (), token_updated_before_change,
         perform (Response_encryptedCookie ''remember_web'' ''s1.abc'' (AgeString ''2years''))
           (in_zone new_york_autumn_2026 (request no_entries remember_cookie
              (store_with_token token_updated_before_change) (1793512770000 + 90000))))"
  by (simp add: guard_defs fixture_defs)

subsection \<open>C2: a second call of authenticate\<close>




subsection \<open>C3: check\<close>

text \<open>
  C3. \<^verbatim>\<open>check\<close> returns true exactly when \<^verbatim>\<open>authenticate\<close> succeeds; when
  \<^verbatim>\<open>authenticate\<close> fails with the unauthorized error it returns false; every other
  error comes out of \<^verbatim>\<open>check\<close> unchanged. Guard and world are those of
  \<^verbatim>\<open>authenticate\<close>.
\<close>

theorem check_downgrades_only_unauthorized:
  "((fst (check K g w) = Inr True) = (\<exists>u. fst (authenticate K g w) = Inr u))
   \<and> (\<forall>e. fst (authenticate K g w) = Inl e \<and> instanceof_E_UNAUTHORIZED_ACCESS e
          \<longrightarrow> fst (check K g w) = Inr False)
   \<and> (\<forall>e. fst (authenticate K g w) = Inl e \<and> \<not> instanceof_E_UNAUTHORIZED_ACCESS e
          \<longrightarrow> fst (check K g w) = Inl e)
   \<and> snd (check K g w) = snd (authenticate K g w)"
  by (cases "authenticate K g w") (auto simp: check_def split: sum.splits)

text \<open>C3 on a successful request, an unauthorized one and one whose provider throws.\<close>

theorem check_downgrades_only_unauthorized_witness:
  "fst (authenticate plain_kit (web_guard full_provider)
          (request (stored_id (IdNumber 7)) no_cookie sample_store 0)) = Inr alice
   \<and> fst (check plain_kit (web_guard full_provider)
          (request (stored_id (IdNumber 7)) no_cookie sample_store 0)) = Inr True
   \<and> fst (authenticate plain_kit (web_guard full_provider)
          (request no_entries no_cookie sample_store 0))
       = Inl (E_UNAUTHORIZED_ACCESS ''Invalid or expired user session'' ''session'')
   \<and> fst (check plain_kit (web_guard full_provider)
          (request no_entries no_cookie sample_store 0)) = Inr False
   \<and> fst (authenticate plain_kit (web_guard failing_provider)
          (request (stored_id (IdNumber 7)) no_cookie sample_store 0))
       = Inl (CollaboratorFailure ''connection lost'')
   \<and> fst (check plain_kit (web_guard failing_provider)
          (request (stored_id (IdNumber 7)) no_cookie sample_store 0))
       = Inl (CollaboratorFailure ''connection lost'')"
proof -
  have a: "fst (authenticate plain_kit (web_guard full_provider)
          (request (stored_id (IdNumber 7)) no_cookie sample_store 0)) = Inr alice"
    by (simp add: guard_defs fixture_defs)
  have b: "fst (authenticate plain_kit (web_guard full_provider)
          (request no_entries no_cookie sample_store 0))
       = Inl (E_UNAUTHORIZED_ACCESS ''Invalid or expired user session'' ''session'')"
    by (simp add: guard_defs fixture_defs)
  have c: "fst (authenticate plain_kit (web_guard failing_provider)
          (request (stored_id (IdNumber 7)) no_cookie sample_store 0))
       = Inl (CollaboratorFailure ''connection lost'')"
    by (simp add: guard_defs fixture_defs)
  show ?thesis
    using a b c
      check_downgrades_only_unauthorized [of plain_kit "web_guard full_provider"
        "request (stored_id (IdNumber 7)) no_cookie sample_store 0"]
      check_downgrades_only_unauthorized [of plain_kit "web_guard full_provider"
        "request no_entries no_cookie sample_store 0"]
      check_downgrades_only_unauthorized [of plain_kit "web_guard failing_provider"
        "request (stored_id (IdNumber 7)) no_cookie sample_store 0"]
    by simp
qed

subsection \<open>C7: a stored id that no longer resolves\<close>

text \<open>
  C7 at a stored id of \<^verbatim>\<open>0\<close>. The provider resolves no user for it, yet the guard
  skips the id as falsy, authenticates Alice from the remember-me cookie and writes her
  id to the session. (\<open>stale_truthy_session_id\<close> is the claim for every truthy id.)
\<close>

theorem falsy_stored_id_is_skipped:
  "fst (store_findById (IdNumber 0) sample_store) = Inr None
   \<and> fst (authenticate plain_kit (web_guard full_provider)
           (request (stored_id (IdNumber 0)) remember_cookie sample_store 30000)) = Inr alice
   \<and> entries (session (snd (snd (authenticate plain_kit (web_guard full_provider)
           (request (stored_id (IdNumber 0)) remember_cookie sample_store 30000))))) ''auth_web''
       = Some (IdNumber 7)"
  by (simp add: guard_defs fixture_defs)

subsection \<open>C4: remember-me login against a provider without token creation\<close>

lemma login_without_createRememberMeToken:
  assumes "createRememberMeToken (userProvider g) = None" and "hasSession w"
    and "createUserForGuard (userProvider g) u (providerState w) = (Inr pu, p1)"
  shows "login K u True g w =
           (Inl rememberMeUnsupported, g,
            w\<lparr>providerState := p1,
              trace := trace w @ [Emit (Login_attempted u (name g)), Provider_createUserForGuard u]\<rparr>)"
  using assms
  by (simp add: login_def rememberMeStep_def getSession_def emit_def perform_def
      call_provider_def Let_def)

lemma login_unsupported_writes_no_session:
  assumes "createRememberMeToken (userProvider g) = None"
    and "login K u True g w = (r, g1, w1)"
  shows "(\<exists>e. r = Inl e) \<and> g1 = g \<and> session w1 = session w
         \<and> (new_effects w w1 = [Emit (Login_attempted u (name g))]
            \<or> new_effects w w1 = [Emit (Login_attempted u (name g)), Provider_createUserForGuard u])"
  using assms
  by (auto simp: login_def rememberMeStep_def getSession_def emit_def perform_def
      call_provider_def Let_def new_effects_def split: prod.splits sum.splits if_splits)

text \<open>
  C4. \<^verbatim>\<open>login(user, true)\<close> with a provider that does not implement
  \<^verbatim>\<open>createRememberMeToken\<close> fails for every user, guard and world; the guard is
  unchanged, the session store is the one before the call and none of the effects of
  the call is a session write (no key written, no id regenerated). The failure is the
  exception about the unsupported remember-me feature whenever the call gets as far as
  the check: the session is installed and \<^verbatim>\<open>createUserForGuard\<close> returns.
\<close>

theorem login_remember_needs_provider_support:
  assumes "createRememberMeToken (userProvider g) = None"
  shows "(\<exists>e. fst (login K u True g w) = Inl e)
       \<and> fst (snd (login K u True g w)) = g
       \<and> session (snd (snd (login K u True g w))) = session w
       \<and> list_all (\<lambda>x. \<not> is_session_write x) (new_effects w (snd (snd (login K u True g w))))
       \<and> (hasSession w \<and> (\<exists>pu p1. createUserForGuard (userProvider g) u (providerState w) = (Inr pu, p1))
            \<longrightarrow> fst (login K u True g w) = Inl rememberMeUnsupported)"
proof -
  obtain r g1 w1 where run: "login K u True g w = (r, g1, w1)"
    by (cases "login K u True g w") auto
  from login_unsupported_writes_no_session [OF assms run]
  have "(\<exists>e. r = Inl e) \<and> g1 = g \<and> session w1 = session w
        \<and> list_all (\<lambda>x. \<not> is_session_write x) (new_effects w w1)"
    by auto
  moreover have "hasSession w \<and> (\<exists>pu p1. createUserForGuard (userProvider g) u (providerState w) = (Inr pu, p1))
            \<longrightarrow> r = Inl rememberMeUnsupported"
    using run login_without_createRememberMeToken [OF assms, of w u _ _ K] by auto
  ultimately show ?thesis
    using run by simp
qed

text \<open>
  C4 on a provider without the optional methods: the login fails with the exception,
  guard and session store are untouched.
\<close>

theorem login_remember_needs_provider_support_witness:
  "createRememberMeToken (userProvider (web_guard basic_provider)) = None
   \<and> hasSession (request no_entries no_cookie sample_store 0)
   \<and> fst (login plain_kit alice True (web_guard basic_provider)
          (request no_entries no_cookie sample_store 0)) = Inl rememberMeUnsupported
   \<and> fst (snd (login plain_kit alice True (web_guard basic_provider)
          (request no_entries no_cookie sample_store 0))) = web_guard basic_provider
   \<and> session (snd (snd (login plain_kit alice True (web_guard basic_provider)
          (request no_entries no_cookie sample_store 0))))
       = session (request no_entries no_cookie sample_store 0)"
proof -
  have c: "createRememberMeToken (userProvider (web_guard basic_provider)) = None"
    by (simp add: fixture_defs)
  show ?thesis
    using c login_remember_needs_provider_support [OF c, of plain_kit alice
        "request no_entries no_cookie sample_store 0"]
    by (simp add: fixture_defs)
qed

subsection \<open>C5: how a missing provider capability surfaces\<close>

lemma authenticate_without_token_methods:
  assumes "\<not> authenticationAttempted g" and "hasSession w"
    and "when_truthy truthy_id (entries (session w) (sessionKeyName g)) = None"
    and "requestCookies w (rememberMeKeyName g) = Some cookie" and "cookie \<noteq> []"
    and "findRememberMeTokenBySeries (userProvider g) = None
         \<or> recycleRememberMeToken_provider (userProvider g) = None"
  shows "authenticate K g w =
           (Inl (E_UNAUTHORIZED_ACCESS ''Invalid or expired user session'' driverName),
            g\<lparr>authenticationAttempted := True\<rparr>,
            w\<lparr>trace := trace w @
                [Emit (Authentication_attempted (name g) (sessionId (session w))),
                 Emit (Authentication_failed (name g)
                   (E_UNAUTHORIZED_ACCESS ''Invalid or expired user session'' driverName)
                   (sessionId (session w)))]\<rparr>)"
  using assms
  by (auto simp: authenticate_def getSession_def emit_def perform_def session_get_def
      sessionKeyName_def rememberMeKeyName_def truthy_string_def
      authenticateViaRememberCookie_def authenticationFailed_def Let_def
      split: option.splits)

text \<open>
  C5 as stated fails at \<^verbatim>\<open>authenticate\<close>: with a remember-me cookie and a provider
  without token lookup, the failure is the ordinary unauthorized error and
  \<^verbatim>\<open>check\<close> returns false.
\<close>

theorem missing_lookup_reads_as_logged_out_counterexample:
  "findRememberMeTokenBySeries (userProvider (web_guard basic_provider)) = None
   \<and> fst (authenticate plain_kit (web_guard basic_provider)
          (request no_entries remember_cookie sample_store 0))
       = Inl (E_UNAUTHORIZED_ACCESS ''Invalid or expired user session'' ''session'')
   \<and> fst (check plain_kit (web_guard basic_provider)
          (request no_entries remember_cookie sample_store 0)) = Inr False"
  by (simp add: guard_defs fixture_defs)

text \<open>
  C5, amended. At login time a missing \<^verbatim>\<open>createRememberMeToken\<close> surfaces as the
  exception about the unsupported feature, which is not an unauthorized error. At
  authenticate time a missing \<^verbatim>\<open>findRememberMeTokenBySeries\<close> or
  \<^verbatim>\<open>recycleRememberMeToken\<close> surfaces as the unauthorized error, after the
  authentication-failed event, and \<^verbatim>\<open>check\<close> returns false.
\<close>

theorem missing_capability_error_kinds:
  "(createRememberMeToken (userProvider g) = None \<and> hasSession w
      \<and> createUserForGuard (userProvider g) u (providerState w) = (Inr pu, p1)
    \<longrightarrow> fst (login K u True g w) = Inl rememberMeUnsupported
        \<and> \<not> instanceof_E_UNAUTHORIZED_ACCESS rememberMeUnsupported)
   \<and> (\<not> authenticationAttempted g \<and> hasSession w
      \<and> when_truthy truthy_id (entries (session w) (sessionKeyName g)) = None
      \<and> requestCookies w (rememberMeKeyName g) = Some cookie \<and> cookie \<noteq> []
      \<and> (findRememberMeTokenBySeries (userProvider g) = None
         \<or> recycleRememberMeToken_provider (userProvider g) = None)
    \<longrightarrow> fst (authenticate K g w)
          = Inl (E_UNAUTHORIZED_ACCESS ''Invalid or expired user session'' driverName)
        \<and> fst (check K g w) = Inr False
        \<and> new_effects w (snd (snd (authenticate K g w))) =
            [Emit (Authentication_attempted (name g) (sessionId (session w))),
             Emit (Authentication_failed (name g)
               (E_UNAUTHORIZED_ACCESS ''Invalid or expired user session'' driverName)
               (sessionId (session w)))])"
proof -
  have a: "\<not> instanceof_E_UNAUTHORIZED_ACCESS rememberMeUnsupported"
    by (simp add: rememberMeUnsupported_def)
  show ?thesis
    using a login_without_createRememberMeToken [of g w u pu p1 K]
      authenticate_without_token_methods [of g w cookie K]
    by (auto simp: check_def new_effects_def)
qed

text \<open>C5, amended, on a provider without the optional methods.\<close>

theorem missing_capability_error_kinds_witness:
  "fst (login plain_kit alice True (web_guard basic_provider)
          (request no_entries no_cookie sample_store 0)) = Inl rememberMeUnsupported
   \<and> \<not> instanceof_E_UNAUTHORIZED_ACCESS rememberMeUnsupported
   \<and> recycleRememberMeToken_provider (userProvider (web_guard basic_provider)) = None
   \<and> fst (authenticate plain_kit (web_guard basic_provider)
          (request no_entries remember_cookie sample_store 0))
       = Inl (E_UNAUTHORIZED_ACCESS ''Invalid or expired user session'' ''session'')
   \<and> fst (check plain_kit (web_guard basic_provider)
          (request no_entries remember_cookie sample_store 0)) = Inr False"
  using missing_capability_error_kinds [of "web_guard basic_provider"
      "request no_entries no_cookie sample_store 0" alice "member_adapter alice" sample_store
      plain_kit "''s1.abc''"]
    missing_capability_error_kinds [of "web_guard basic_provider"
      "request no_entries remember_cookie sample_store 0" alice "member_adapter alice" sample_store
      plain_kit "''s1.abc''"]
  by (simp add: fixture_defs sessionKeyName_def rememberMeKeyName_def driverName_def)

subsection \<open>C6: a successful login\<close>

lemma rememberMeStep_effects:
  assumes "rememberMeStep K uid remember g w = (Inr x, w2)"
  shows "session w2 = session w \<and> hasSession w2 = hasSession w \<and> entropy w2 = entropy w
       \<and> drawn w2 = (if remember then drawn w + 2 else drawn w)
       \<and> (\<exists>mid. trace w2 = trace w @ mid
            \<and> (\<not> remember \<longrightarrow> mid = [Response_clearCookie (rememberMeKeyName g)])
            \<and> (remember \<longrightarrow> (\<exists>t v. tokenValue t = Some v \<and>
                  mid = [Provider_createRememberMeToken t,
                         Response_encryptedCookie (rememberMeKeyName g) v (tokenAge g)])))"
proof (cases remember)
  case False
  with assms show ?thesis
    by (auto simp: rememberMeStep_def perform_def)
next
  case True
  with assms show ?thesis
    by (auto simp: rememberMeStep_def perform_def call_provider_def createRememberMeCookie_def
        RememberMeToken_create_def random_string_def
        split: option.splits prod.splits sum.splits)
qed

lemma createSessionForUser_effects:
  assumes "createSessionForUser uid g w = (Inr x, w3)"
  shows "trace w3 = trace w @ [Session_put (sessionKeyName g) uid, Session_regenerate]
       \<and> entries (session w3) (sessionKeyName g) = Some uid
       \<and> sessionId (session w3) = entropy w (drawn w)"
  using assms
  by (auto simp: createSessionForUser_def getSession_def session_put_def session_regenerate_def
      random_string_def perform_def split: if_splits)

lemma login_steps:
  assumes "login K u remember g w = (Inr r, g1, w1)"
  shows "\<exists>pu p1 w2 w3 x y.
           createUserForGuard (userProvider g) u (providerState w) = (Inr pu, p1)
         \<and> rememberMeStep K (getId pu) remember g
               (w\<lparr>trace := trace w @ [Emit (Login_attempted u (name g)), Provider_createUserForGuard u],
                  providerState := p1\<rparr>) = (Inr x, w2)
         \<and> createSessionForUser (getId pu) g w2 = (Inr y, w3)
         \<and> r = u \<and> g1 = g\<lparr>user := Some u, isLoggedOut := False\<rparr>
         \<and> w1 = emit (Login_succeeded (name g) u (sessionId (session w3))) w3"
  using assms
  by (auto simp: login_def Let_def emit_def perform_def call_provider_def
      split: sum.splits prod.splits)

text \<open>
  C6. A successful \<^verbatim>\<open>login(user, remember)\<close> returns the user and leaves the guard
  with \<^verbatim>\<open>user\<close> set to it and \<^verbatim>\<open>isLoggedOut\<close> false. Its effects are, in this
  order: the login-attempted event, \<^verbatim>\<open>createUserForGuard\<close>, the remember-me step,
  the session write of the principal's id under the guard's key, the regeneration of the
  session id, and the login-succeeded event carrying the new session id. The remember-me
  step clears the remember-me cookie when \<open>remember\<close> is false, and persists a token
  and sets the cookie to its value when it is true.
\<close>

theorem login_establishes_session:
  assumes "login K u remember g w = (Inr r, g1, w1)"
  shows "\<exists>pu p1 mid.
           createUserForGuard (userProvider g) u (providerState w) = (Inr pu, p1)
         \<and> r = u
         \<and> g1 = g\<lparr>user := Some u, isLoggedOut := False\<rparr>
         \<and> new_effects w w1 =
             [Emit (Login_attempted u (name g)), Provider_createUserForGuard u] @ mid @
             [Session_put (sessionKeyName g) (getId pu), Session_regenerate,
              Emit (Login_succeeded (name g) u (sessionId (session w1)))]
         \<and> entries (session w1) (sessionKeyName g) = Some (getId pu)
         \<and> sessionId (session w1) = entropy w (if remember then drawn w + 2 else drawn w)
         \<and> (\<not> remember \<longrightarrow> mid = [Response_clearCookie (rememberMeKeyName g)])
         \<and> (remember \<longrightarrow> (\<exists>t v. tokenValue t = Some v \<and>
               mid = [Provider_createRememberMeToken t,
                      Response_encryptedCookie (rememberMeKeyName g) v (tokenAge g)]))"
proof -
  from login_steps [OF assms] obtain pu p1 w2 w3 x y where
    cu: "createUserForGuard (userProvider g) u (providerState w) = (Inr pu, p1)"
    and rs: "rememberMeStep K (getId pu) remember g
               (w\<lparr>trace := trace w @ [Emit (Login_attempted u (name g)), Provider_createUserForGuard u],
                  providerState := p1\<rparr>) = (Inr x, w2)"
    and cs: "createSessionForUser (getId pu) g w2 = (Inr y, w3)"
    and res: "r = u" "g1 = g\<lparr>user := Some u, isLoggedOut := False\<rparr>"
    and w1: "w1 = emit (Login_succeeded (name g) u (sessionId (session w3))) w3"
    by blast
  from rememberMeStep_effects [OF rs] obtain mid where
    d2: "drawn w2 = (if remember then drawn w + 2 else drawn w)" and e2: "entropy w2 = entropy w"
    and t2: "trace w2 = trace w @ [Emit (Login_attempted u (name g)), Provider_createUserForGuard u] @ mid"
    and m1: "\<not> remember \<longrightarrow> mid = [Response_clearCookie (rememberMeKeyName g)]"
    and m2: "remember \<longrightarrow> (\<exists>t v. tokenValue t = Some v \<and>
               mid = [Provider_createRememberMeToken t,
                      Response_encryptedCookie (rememberMeKeyName g) v (tokenAge g)])"
    by auto
  from createSessionForUser_effects [OF cs]
  have t3: "trace w3 = trace w2 @ [Session_put (sessionKeyName g) (getId pu), Session_regenerate]"
    and s3: "entries (session w3) (sessionKeyName g) = Some (getId pu)"
    and i3: "sessionId (session w3) = entropy w2 (drawn w2)"
    by auto
  have sess: "session w1 = session w3"
    using w1 by (simp add: emit_def perform_def)
  have tr: "new_effects w w1 =
             [Emit (Login_attempted u (name g)), Provider_createUserForGuard u] @ mid @
             [Session_put (sessionKeyName g) (getId pu), Session_regenerate,
              Emit (Login_succeeded (name g) u (sessionId (session w1)))]"
    using w1 t3 t2 sess by (simp add: new_effects_def emit_def perform_def)
  have sid: "sessionId (session w1) = entropy w (if remember then drawn w + 2 else drawn w)"
    using sess i3 d2 e2 by simp
  show ?thesis
    using cu res tr s3 sess sid m1 m2 by auto
qed

text \<open>
  C6 on Alice logging in with \<open>remember\<close>: her id is in the session under
  \<open>auth_web\<close> and the session id is the third fresh string.
\<close>

theorem login_establishes_session_witness:
  "fst (login plain_kit alice True (web_guard full_provider)
          (request no_entries no_cookie sample_store 0)) = Inr alice
   \<and> user (fst (snd (login plain_kit alice True (web_guard full_provider)
          (request no_entries no_cookie sample_store 0)))) = Some alice
   \<and> entries (session (snd (snd (login plain_kit alice True (web_guard full_provider)
          (request no_entries no_cookie sample_store 0))))) ''auth_web'' = Some (IdNumber 7)
   \<and> sessionId (session (snd (snd (login plain_kit alice True (web_guard full_provider)
          (request no_entries no_cookie sample_store 0))))) = ''freshxx''"
proof -
  have r: "fst (login plain_kit alice True (web_guard full_provider)
          (request no_entries no_cookie sample_store 0)) = Inr alice"
    by (simp add: guard_defs fixture_defs)
  have run: "login plain_kit alice True (web_guard full_provider)
          (request no_entries no_cookie sample_store 0)
       = (Inr alice,
          fst (snd (login plain_kit alice True (web_guard full_provider)
            (request no_entries no_cookie sample_store 0))),
          snd (snd (login plain_kit alice True (web_guard full_provider)
            (request no_entries no_cookie sample_store 0))))"
    using r by (metis prod.collapse)
  show ?thesis
    using r login_establishes_session [OF run]
    by (auto simp: fixture_defs sessionKeyName_def numeral_2_eq_2)
qed

subsection \<open>C10: what login leaves alone\<close>

lemma login_guard:
  "login K u remember g w = (r, g1, w1) \<Longrightarrow>
     (case r of Inl e \<Rightarrow> g1 = g | Inr v \<Rightarrow> v = u \<and> g1 = g\<lparr>user := Some u, isLoggedOut := False\<rparr>)"
  by (auto simp: login_def Let_def split: prod.splits sum.splits)

lemma verifyCredentials_guard:
  "verifyCredentials uid password g w = (r, g1, w1) \<Longrightarrow> g1 = g"
  by (auto simp: verifyCredentials_def loginFailed_def Let_def
      split: prod.splits sum.splits option.splits)

lemma attempt_guard:
  "attempt K uid password remember g w = (r, g1, w1) \<Longrightarrow>
     (case r of Inl e \<Rightarrow> g1 = g | Inr v \<Rightarrow> g1 = g\<lparr>user := Some v, isLoggedOut := False\<rparr>)"
  by (auto simp: attempt_def split: prod.splits sum.splits
      dest!: verifyCredentials_guard login_guard)

lemma loginViaId_guard:
  "loginViaId K i remember g w = (r, g1, w1) \<Longrightarrow>
     (case r of Inl e \<Rightarrow> g1 = g | Inr v \<Rightarrow> g1 = g\<lparr>user := Some v, isLoggedOut := False\<rparr>)"
  by (auto simp: loginViaId_def loginFailed_def Let_def split: prod.splits sum.splits option.splits
      dest!: login_guard)

lemma logout_guard:
  "logout K g w = (r, g1, w1) \<Longrightarrow>
     g1 = g \<or> g1 = g\<lparr>user := None, viaRemember := False, isAuthenticated := False, isLoggedOut := True\<rparr>"
  by (auto simp: logout_def Let_def split: prod.splits sum.splits)

lemma authenticateAsClient_guard:
  "authenticateAsClient u g w = (r, g1, w1) \<Longrightarrow> g1 = g"
  by (auto simp: authenticateAsClient_def split: prod.splits sum.splits)

text \<open>
  C10. A successful \<^verbatim>\<open>login\<close>, \<^verbatim>\<open>attempt\<close> or \<^verbatim>\<open>loginViaId\<close> sets
  \<^verbatim>\<open>user\<close> and makes \<^verbatim>\<open>isLoggedOut\<close> false, and leaves \<^verbatim>\<open>isAuthenticated\<close>
  and \<^verbatim>\<open>viaRemember\<close> as they were: on a freshly constructed guard both are false
  after the login. No public method other than \<^verbatim>\<open>authenticate\<close> and \<^verbatim>\<open>check\<close>
  makes \<^verbatim>\<open>isAuthenticated\<close> true.
\<close>

theorem login_leaves_isAuthenticated:
  "(\<forall>r g1 w1. login K u remember g w = (Inr r, g1, w1) \<longrightarrow>
       user g1 = Some u \<and> \<not> isLoggedOut g1
       \<and> isAuthenticated g1 = isAuthenticated g \<and> viaRemember g1 = viaRemember g)
   \<and> (\<forall>r g1 w1. attempt K uid password remember g w = (Inr r, g1, w1) \<longrightarrow>
       user g1 = Some r \<and> \<not> isLoggedOut g1
       \<and> isAuthenticated g1 = isAuthenticated g \<and> viaRemember g1 = viaRemember g)
   \<and> (\<forall>r g1 w1. loginViaId K i remember g w = (Inr r, g1, w1) \<longrightarrow>
       user g1 = Some r \<and> \<not> isLoggedOut g1
       \<and> isAuthenticated g1 = isAuthenticated g \<and> viaRemember g1 = viaRemember g)
   \<and> (\<forall>r g1 w1. login K u remember (SessionGuard n c p) w0 = (Inr r, g1, w1) \<longrightarrow>
       \<not> isAuthenticated g1 \<and> \<not> viaRemember g1)
   \<and> (isAuthenticated (fst (snd (login K u remember g w))) \<longrightarrow> isAuthenticated g)
   \<and> (isAuthenticated (fst (snd (attempt K uid password remember g w))) \<longrightarrow> isAuthenticated g)
   \<and> (isAuthenticated (fst (snd (loginViaId K i remember g w))) \<longrightarrow> isAuthenticated g)
   \<and> (isAuthenticated (fst (snd (verifyCredentials uid password g w))) \<longrightarrow> isAuthenticated g)
   \<and> (isAuthenticated (fst (snd (logout K g w))) \<longrightarrow> isAuthenticated g)
   \<and> (isAuthenticated (fst (snd (authenticateAsClient u g w))) \<longrightarrow> isAuthenticated g)"
proof -
  have l: "\<forall>r g1 w1. login K u remember g w = (Inr r, g1, w1) \<longrightarrow>
       user g1 = Some u \<and> \<not> isLoggedOut g1
       \<and> isAuthenticated g1 = isAuthenticated g \<and> viaRemember g1 = viaRemember g" for g w
    by (auto dest!: login_guard)
  have a: "\<forall>r g1 w1. attempt K uid password remember g w = (Inr r, g1, w1) \<longrightarrow>
       user g1 = Some r \<and> \<not> isLoggedOut g1
       \<and> isAuthenticated g1 = isAuthenticated g \<and> viaRemember g1 = viaRemember g"
    by (auto dest!: attempt_guard)
  have v: "\<forall>r g1 w1. loginViaId K i remember g w = (Inr r, g1, w1) \<longrightarrow>
       user g1 = Some r \<and> \<not> isLoggedOut g1
       \<and> isAuthenticated g1 = isAuthenticated g \<and> viaRemember g1 = viaRemember g"
    by (auto dest!: loginViaId_guard)
  have f: "\<forall>r g1 w1. login K u remember (SessionGuard n c p) w0 = (Inr r, g1, w1) \<longrightarrow>
       \<not> isAuthenticated g1 \<and> \<not> viaRemember g1"
    using l [of "SessionGuard n c p" w0] by (simp add: SessionGuard_def)
  have l2: "isAuthenticated (fst (snd (login K u remember g w))) \<longrightarrow> isAuthenticated g"
    by (cases "login K u remember g w") (auto dest!: login_guard split: sum.splits)
  have a2: "isAuthenticated (fst (snd (attempt K uid password remember g w))) \<longrightarrow> isAuthenticated g"
    by (cases "attempt K uid password remember g w") (auto dest!: attempt_guard split: sum.splits)
  have v2: "isAuthenticated (fst (snd (loginViaId K i remember g w))) \<longrightarrow> isAuthenticated g"
    by (cases "loginViaId K i remember g w") (auto dest!: loginViaId_guard split: sum.splits)
  have c2: "isAuthenticated (fst (snd (verifyCredentials uid password g w))) \<longrightarrow> isAuthenticated g"
    by (cases "verifyCredentials uid password g w") (auto dest!: verifyCredentials_guard)
  have o2: "isAuthenticated (fst (snd (logout K g w))) \<longrightarrow> isAuthenticated g"
    by (cases "logout K g w") (auto dest!: logout_guard)
  have k2: "isAuthenticated (fst (snd (authenticateAsClient u g w))) \<longrightarrow> isAuthenticated g"
    by (cases "authenticateAsClient u g w") (auto dest!: authenticateAsClient_guard)
  show ?thesis
    using l [of g w] a v f l2 a2 v2 c2 o2 k2 by blast
qed

text \<open>C10 on Alice logging in on a freshly constructed guard.\<close>

theorem login_leaves_isAuthenticated_witness:
  "fst (login plain_kit alice False (web_guard full_provider)
          (request no_entries no_cookie sample_store 0)) = Inr alice
   \<and> \<not> isAuthenticated (fst (snd (login plain_kit alice False (web_guard full_provider)
          (request no_entries no_cookie sample_store 0))))
   \<and> \<not> viaRemember (fst (snd (login plain_kit alice False (web_guard full_provider)
          (request no_entries no_cookie sample_store 0))))
   \<and> user (fst (snd (login plain_kit alice False (web_guard full_provider)
          (request no_entries no_cookie sample_store 0)))) = Some alice"
proof -
  have r: "fst (login plain_kit alice False (web_guard full_provider)
          (request no_entries no_cookie sample_store 0)) = Inr alice"
    by (simp add: guard_defs fixture_defs)
  have run: "login plain_kit alice False (web_guard full_provider)
          (request no_entries no_cookie sample_store 0)
       = (Inr alice,
          fst (snd (login plain_kit alice False (web_guard full_provider)
            (request no_entries no_cookie sample_store 0))),
          snd (snd (login plain_kit alice False (web_guard full_provider)
            (request no_entries no_cookie sample_store 0))))"
    using r by (metis prod.collapse)
  have g: "isAuthenticated (web_guard full_provider) = False
           \<and> viaRemember (web_guard full_provider) = False"
    by (simp add: fixture_defs)
  show ?thesis
    using r run g login_leaves_isAuthenticated [of plain_kit alice False "web_guard full_provider"
        "request no_entries no_cookie sample_store 0"]
    by metis
qed

subsection \<open>C8: logout\<close>

lemma logout_run:
  assumes "hasSession w"
  shows "logout K g w =
     (fst (revokeRememberMeToken K (requestCookies w (rememberMeKeyName g))
             (g\<lparr>user := None, viaRemember := False, isAuthenticated := False, isLoggedOut := True\<rparr>)
             (w\<lparr>session := (session w)\<lparr>entries := (entries (session w))(sessionKeyName g := None)\<rparr>,
                trace := trace w @
                  [Session_forget (sessionKeyName g), Response_clearCookie (rememberMeKeyName g),
                   Emit (Logged_out (name g) None (sessionId (session w)))]\<rparr>)),
      g\<lparr>user := None, viaRemember := False, isAuthenticated := False, isLoggedOut := True\<rparr>,
      snd (revokeRememberMeToken K (requestCookies w (rememberMeKeyName g))
             (g\<lparr>user := None, viaRemember := False, isAuthenticated := False, isLoggedOut := True\<rparr>)
             (w\<lparr>session := (session w)\<lparr>entries := (entries (session w))(sessionKeyName g := None)\<rparr>,
                trace := trace w @
                  [Session_forget (sessionKeyName g), Response_clearCookie (rememberMeKeyName g),
                   Emit (Logged_out (name g) None (sessionId (session w)))]\<rparr>)))"
  using assms
  by (simp add: logout_def getSession_def Let_def session_forget_def perform_def emit_def
      split: prod.splits)

lemma revoke_skips:
  assumes "when_truthy truthy_string c = None \<or> deleteRememberMeTokenBySeries (userProvider g) = None
           \<or> (\<exists>v. c = Some v \<and> RememberMeToken_decode K v = None)"
  shows "revokeRememberMeToken K c g w = (Inr (), w)"
  using assms
  by (auto simp: revokeRememberMeToken_def split: option.splits if_splits)

lemma revoke_deletes:
  assumes "c = Some v" and "v \<noteq> []"
    and "deleteRememberMeTokenBySeries (userProvider g) = Some del"
    and "RememberMeToken_decode K v = Some (ser, sec)"
  shows "revokeRememberMeToken K c g w =
           (fst (del ser (providerState w)),
            w\<lparr>trace := trace w @ [Provider_deleteRememberMeTokenBySeries ser],
              providerState := snd (del ser (providerState w))\<rparr>)"
  using assms
  by (simp add: revokeRememberMeToken_def truthy_string_def call_provider_def perform_def
      split: prod.splits)

text \<open>
  C8. With the session installed, \<^verbatim>\<open>logout\<close> leaves the guard with no user,
  \<^verbatim>\<open>viaRemember\<close> and \<^verbatim>\<open>isAuthenticated\<close> false and \<^verbatim>\<open>isLoggedOut\<close> true, and
  the session without the stored id; its first three effects are forgetting the session
  key, clearing the remember-me cookie and the logged-out event. When the cookie is
  missing (or empty), or the provider does not implement
  \<^verbatim>\<open>deleteRememberMeTokenBySeries\<close>, or the cookie does not decode, these are all its
  effects, the provider is not touched and logout returns without error. Only when the
  cookie is present and decodes and the provider implements the method does a fourth
  effect follow, the deletion by the decoded series, whose outcome is logout's.
\<close>

theorem logout_clears_and_revokes_best_effort:
  assumes "hasSession w"
  shows "fst (snd (logout K g w)) =
           g\<lparr>user := None, viaRemember := False, isAuthenticated := False, isLoggedOut := True\<rparr>
       \<and> entries (session (snd (snd (logout K g w)))) (sessionKeyName g) = None
       \<and> take 3 (new_effects w (snd (snd (logout K g w)))) =
           [Session_forget (sessionKeyName g), Response_clearCookie (rememberMeKeyName g),
            Emit (Logged_out (name g) None (sessionId (session w)))]
       \<and> (when_truthy truthy_string (requestCookies w (rememberMeKeyName g)) = None
            \<or> deleteRememberMeTokenBySeries (userProvider g) = None
            \<or> (\<exists>v. requestCookies w (rememberMeKeyName g) = Some v \<and> RememberMeToken_decode K v = None)
          \<longrightarrow> fst (logout K g w) = Inr ()
              \<and> providerState (snd (snd (logout K g w))) = providerState w
              \<and> new_effects w (snd (snd (logout K g w))) =
                  [Session_forget (sessionKeyName g), Response_clearCookie (rememberMeKeyName g),
                   Emit (Logged_out (name g) None (sessionId (session w)))])
       \<and> (\<forall>v del ser sec.
             requestCookies w (rememberMeKeyName g) = Some v \<and> v \<noteq> []
             \<and> deleteRememberMeTokenBySeries (userProvider g) = Some del
             \<and> RememberMeToken_decode K v = Some (ser, sec)
          \<longrightarrow> fst (logout K g w) = fst (del ser (providerState w))
              \<and> new_effects w (snd (snd (logout K g w))) =
                  [Session_forget (sessionKeyName g), Response_clearCookie (rememberMeKeyName g),
                   Emit (Logged_out (name g) None (sessionId (session w))),
                   Provider_deleteRememberMeTokenBySeries ser])"
proof -
  let ?g1 = "g\<lparr>user := None, viaRemember := False, isAuthenticated := False, isLoggedOut := True\<rparr>"
  let ?w3 = "w\<lparr>session := (session w)\<lparr>entries := (entries (session w))(sessionKeyName g := None)\<rparr>,
                trace := trace w @
                  [Session_forget (sessionKeyName g), Response_clearCookie (rememberMeKeyName g),
                   Emit (Logged_out (name g) None (sessionId (session w)))]\<rparr>"
  let ?c = "requestCookies w (rememberMeKeyName g)"
  have run: "logout K g w =
      (fst (revokeRememberMeToken K ?c ?g1 ?w3), ?g1, snd (revokeRememberMeToken K ?c ?g1 ?w3))"
    by (rule logout_run [OF assms])
  have skip: "when_truthy truthy_string ?c = None
            \<or> deleteRememberMeTokenBySeries (userProvider g) = None
            \<or> (\<exists>v. ?c = Some v \<and> RememberMeToken_decode K v = None)
          \<Longrightarrow> revokeRememberMeToken K ?c ?g1 ?w3 = (Inr (), ?w3)"
    by (rule revoke_skips) simp
  have del: "?c = Some v \<Longrightarrow> v \<noteq> [] \<Longrightarrow> deleteRememberMeTokenBySeries (userProvider g) = Some del
             \<Longrightarrow> RememberMeToken_decode K v = Some (ser, sec)
             \<Longrightarrow> revokeRememberMeToken K ?c ?g1 ?w3 =
           (fst (del ser (providerState ?w3)),
            ?w3\<lparr>trace := trace ?w3 @ [Provider_deleteRememberMeTokenBySeries ser],
              providerState := snd (del ser (providerState ?w3))\<rparr>)" for v del ser sec
    by (rule revoke_deletes) simp_all
  have cases: "(when_truthy truthy_string ?c = None
            \<or> deleteRememberMeTokenBySeries (userProvider g) = None
            \<or> (\<exists>v. ?c = Some v \<and> RememberMeToken_decode K v = None))
          \<or> (\<exists>v del ser sec. ?c = Some v \<and> v \<noteq> []
                \<and> deleteRememberMeTokenBySeries (userProvider g) = Some del
                \<and> RememberMeToken_decode K v = Some (ser, sec))"
  proof (cases "when_truthy truthy_string ?c")
    case None
    then show ?thesis by simp
  next
    case present: (Some v)
    have cv: "?c = Some v \<and> v \<noteq> []"
      using present by (cases ?c) (auto simp: truthy_string_def split: if_splits)
    show ?thesis
    proof (cases "deleteRememberMeTokenBySeries (userProvider g)")
      case None
      then show ?thesis by simp
    next
      case implemented: (Some del)
      show ?thesis
      proof (cases "RememberMeToken_decode K v")
        case None
        with cv show ?thesis by simp
      next
        case decoded: (Some p)
        obtain ser sec where "p = (ser, sec)" by (cases p)
        with cv implemented decoded show ?thesis by blast
      qed
    qed
  qed
  have a: "fst (snd (logout K g w)) = ?g1"
    using run by simp
  have b: "entries (session (snd (snd (logout K g w)))) (sessionKeyName g) = None"
    using cases run skip del by (elim disjE exE conjE) simp_all
  have c: "take 3 (new_effects w (snd (snd (logout K g w)))) =
           [Session_forget (sessionKeyName g), Response_clearCookie (rememberMeKeyName g),
            Emit (Logged_out (name g) None (sessionId (session w)))]"
    using cases run skip del by (elim disjE exE conjE) (simp_all add: new_effects_def)
  have d: "when_truthy truthy_string ?c = None
            \<or> deleteRememberMeTokenBySeries (userProvider g) = None
            \<or> (\<exists>v. ?c = Some v \<and> RememberMeToken_decode K v = None)
          \<longrightarrow> fst (logout K g w) = Inr ()
              \<and> providerState (snd (snd (logout K g w))) = providerState w
              \<and> new_effects w (snd (snd (logout K g w))) =
                  [Session_forget (sessionKeyName g), Response_clearCookie (rememberMeKeyName g),
                   Emit (Logged_out (name g) None (sessionId (session w)))]"
    using run skip by (auto simp: new_effects_def)
  have e: "\<forall>v del ser sec.
             ?c = Some v \<and> v \<noteq> []
             \<and> deleteRememberMeTokenBySeries (userProvider g) = Some del
             \<and> RememberMeToken_decode K v = Some (ser, sec)
          \<longrightarrow> fst (logout K g w) = fst (del ser (providerState w))
              \<and> new_effects w (snd (snd (logout K g w))) =
                  [Session_forget (sessionKeyName g), Response_clearCookie (rememberMeKeyName g),
                   Emit (Logged_out (name g) None (sessionId (session w))),
                   Provider_deleteRememberMeTokenBySeries ser]"
    using run del by (auto simp: new_effects_def)
  show ?thesis
    using a b c d e by blast
qed

text \<open>
  C8 on a request with a valid remember-me cookie: a provider without the deletion
  method gets no call and logout returns; a provider with it is asked to delete series
  \<open>s1\<close>.
\<close>

theorem logout_clears_and_revokes_best_effort_witness:
  "hasSession (request (stored_id (IdNumber 7)) remember_cookie sample_store 0)
   \<and> deleteRememberMeTokenBySeries (userProvider (web_guard basic_provider)) = None
   \<and> fst (logout plain_kit (web_guard basic_provider)
          (request (stored_id (IdNumber 7)) remember_cookie sample_store 0)) = Inr ()
   \<and> new_effects (request (stored_id (IdNumber 7)) remember_cookie sample_store 0)
        (snd (snd (logout plain_kit (web_guard basic_provider)
          (request (stored_id (IdNumber 7)) remember_cookie sample_store 0))))
       = [Session_forget ''auth_web'', Response_clearCookie ''remember_web'',
          Emit (Logged_out ''web'' None ''sid0'')]
   \<and> entries (session (snd (snd (logout plain_kit (web_guard basic_provider)
          (request (stored_id (IdNumber 7)) remember_cookie sample_store 0))))) ''auth_web'' = None
   \<and> RememberMeToken_decode plain_kit ''s1.abc'' = Some (''s1'', ''abc'')
   \<and> new_effects (request (stored_id (IdNumber 7)) remember_cookie sample_store 0)
        (snd (snd (logout plain_kit (web_guard full_provider)
          (request (stored_id (IdNumber 7)) remember_cookie sample_store 0))))
       = [Session_forget ''auth_web'', Response_clearCookie ''remember_web'',
          Emit (Logged_out ''web'' None ''sid0''),
          Provider_deleteRememberMeTokenBySeries ''s1'']"
proof -
  have h: "hasSession (request (stored_id (IdNumber 7)) remember_cookie sample_store 0)"
    by (simp add: fixture_defs)
  have d: "RememberMeToken_decode plain_kit ''s1.abc'' = Some (''s1'', ''abc'')"
    by (simp add: RememberMeToken_decode_def fixture_defs)
  have n: "deleteRememberMeTokenBySeries (userProvider (web_guard basic_provider)) = None"
    by (simp add: fixture_defs)
  have f: "deleteRememberMeTokenBySeries (userProvider (web_guard full_provider))
             = Some store_deleteToken"
    by (simp add: fixture_defs)
  have c: "requestCookies (request (stored_id (IdNumber 7)) remember_cookie sample_store 0)
             (rememberMeKeyName (web_guard full_provider)) = Some ''s1.abc''"
    by (simp add: fixture_defs rememberMeKeyName_def)
  have k: "sessionKeyName (web_guard basic_provider) = ''auth_web''
           \<and> rememberMeKeyName (web_guard basic_provider) = ''remember_web''
           \<and> sessionKeyName (web_guard full_provider) = ''auth_web''
           \<and> rememberMeKeyName (web_guard full_provider) = ''remember_web''
           \<and> name (web_guard basic_provider) = ''web'' \<and> name (web_guard full_provider) = ''web''
           \<and> sessionId (session (request (stored_id (IdNumber 7)) remember_cookie sample_store 0)) = ''sid0''"
    by (simp add: fixture_defs sessionKeyName_def rememberMeKeyName_def)
  show ?thesis
    using h d n f c k
      logout_clears_and_revokes_best_effort [OF h, of plain_kit "web_guard basic_provider"]
      logout_clears_and_revokes_best_effort [OF h, of plain_kit "web_guard full_provider"]
    by (auto simp del: take_Suc_Cons)
qed

subsection \<open>C9: a token of another guard\<close>

text \<open>
  C9. On a first \<^verbatim>\<open>authenticate\<close> that goes by the remember-me cookie (session
  installed, no truthy stored id, a non-empty cookie that decodes, a provider with the
  lookup and recycle methods), a token found by series whose \<^verbatim>\<open>guard\<close> is not this
  guard's name makes the call fail with the unauthorized error, whether or not the
  cookie's secret verifies against the stored hash. The effects stop at the
  authentication-failed event: no user lookup, no session, no cookie.
\<close>

theorem foreign_guard_token_is_rejected:
  assumes "\<not> authenticationAttempted g" and "hasSession w"
    and "when_truthy truthy_id (entries (session w) (sessionKeyName g)) = None"
    and "requestCookies w (rememberMeKeyName g) = Some cookie" and "cookie \<noteq> []"
    and "findRememberMeTokenBySeries (userProvider g) = Some findToken"
    and "recycleRememberMeToken_provider (userProvider g) = Some recycle"
    and "RememberMeToken_decode K cookie = Some (ser, secret)"
    and "findToken ser (providerState w) = (Inr (Some token), p1)"
    and "guard token \<noteq> name g"
  shows "authenticate K g w =
           (Inl (E_UNAUTHORIZED_ACCESS ''Invalid or expired user session'' driverName),
            g\<lparr>authenticationAttempted := True\<rparr>,
            w\<lparr>providerState := p1,
              trace := trace w @
                [Emit (Authentication_attempted (name g) (sessionId (session w))),
                 Provider_findRememberMeTokenBySeries ser,
                 Emit (Authentication_failed (name g)
                   (E_UNAUTHORIZED_ACCESS ''Invalid or expired user session'' driverName)
                   (sessionId (session w)))]\<rparr>)"
  using assms
  by (simp add: authenticate_def getSession_def emit_def perform_def session_get_def
      sessionKeyName_def rememberMeKeyName_def truthy_string_def
      authenticateViaRememberCookie_def call_provider_def authenticationFailed_def Let_def)

text \<open>
  C9 on the store whose token for series \<open>s1\<close> belongs to guard \<open>api\<close>: the secret
  \<open>abc\<close> verifies, the guard \<open>web\<close> rejects the cookie.
\<close>

theorem foreign_guard_token_is_rejected_witness:
  "guard (alice_token\<lparr>guard := ''api''\<rparr>) \<noteq> name (web_guard full_provider)
   \<and> RememberMeToken_verify plain_kit (alice_token\<lparr>guard := ''api''\<rparr>) ''abc''
   \<and> fst (authenticate plain_kit (web_guard full_provider)
          (request no_entries remember_cookie foreign_store 0))
       = Inl (E_UNAUTHORIZED_ACCESS ''Invalid or expired user session'' ''session'')
   \<and> new_effects (request no_entries remember_cookie foreign_store 0)
         (snd (snd (authenticate plain_kit (web_guard full_provider)
            (request no_entries remember_cookie foreign_store 0))))
       = [Emit (Authentication_attempted ''web'' ''sid0''),
          Provider_findRememberMeTokenBySeries ''s1'',
          Emit (Authentication_failed ''web''
            (E_UNAUTHORIZED_ACCESS ''Invalid or expired user session'' ''session'') ''sid0'')]"
proof -
  have v: "RememberMeToken_verify plain_kit (alice_token\<lparr>guard := ''api''\<rparr>) ''abc''"
    by (simp add: RememberMeToken_verify_def fixture_defs)
  have d: "RememberMeToken_decode plain_kit ''s1.abc'' = Some (''s1'', ''abc'')"
    by (simp add: RememberMeToken_decode_def fixture_defs)
  have f: "store_findToken ''s1'' (providerState (request no_entries remember_cookie foreign_store 0))
             = (Inr (Some (alice_token\<lparr>guard := ''api''\<rparr>)), foreign_store)"
    by (simp add: fixture_defs)
  have g: "guard (alice_token\<lparr>guard := ''api''\<rparr>) \<noteq> name (web_guard full_provider)"
    by (simp add: fixture_defs)
  have run: "authenticate plain_kit (web_guard full_provider)
          (request no_entries remember_cookie foreign_store 0) =
           (Inl (E_UNAUTHORIZED_ACCESS ''Invalid or expired user session'' driverName),
            (web_guard full_provider)\<lparr>authenticationAttempted := True\<rparr>,
            (request no_entries remember_cookie foreign_store 0)\<lparr>providerState := foreign_store,
              trace := trace (request no_entries remember_cookie foreign_store 0) @
                [Emit (Authentication_attempted (name (web_guard full_provider))
                   (sessionId (session (request no_entries remember_cookie foreign_store 0)))),
                 Provider_findRememberMeTokenBySeries ''s1'',
                 Emit (Authentication_failed (name (web_guard full_provider))
                   (E_UNAUTHORIZED_ACCESS ''Invalid or expired user session'' driverName)
                   (sessionId (session (request no_entries remember_cookie foreign_store 0))))]\<rparr>)"
    by (rule foreign_guard_token_is_rejected [where cookie = "''s1.abc''" and findToken = store_findToken
          and recycle = store_recycleToken and ser = "''s1''" and secret = "''abc''", OF _ _ _ _ _ _ _ d f g])
       (simp_all add: fixture_defs sessionKeyName_def rememberMeKeyName_def)
  show ?thesis
    using v g run by (simp add: new_effects_def driverName_def fixture_defs)
qed

end
